theory Spec2Isabelle
  imports Main "HOL-Library.Word"
begin

section \<open>The vDSO entry table of bionic (libc/bionic/vdso.cpp)\<close>

text \<open>
  The file is compiled for the two 64-bit targets named in its first \<^verbatim>\<open>#if\<close>
  (\<^verbatim>\<open>__aarch64__\<close> and \<^verbatim>\<open>__x86_64__\<close>), so \<^verbatim>\<open>uintptr_t\<close>, \<^verbatim>\<open>size_t\<close>,
  \<^verbatim>\<open>ElfW(Addr)\<close> and every pointer are 64-bit words whose arithmetic wraps around.
\<close>

type_synonym addr = "64 word"

subsection \<open>The ELF64 structures, as far as the code reads them\<close>

text \<open>
  The structures come from \<^verbatim>\<open><link.h>\<close>; only the fields read by
  \<^verbatim>\<open>__libc_init_vdso_entries\<close> are kept, each with the width of its ELF64 type.
\<close>

record Elf_Ehdr =
  e_phoff :: "64 word"
  e_shoff :: "64 word"
  e_phnum :: "16 word"
  e_shnum :: "16 word"

record Elf_Shdr =
  sh_type :: "32 word"
  sh_size :: "64 word"

record Elf_Phdr =
  p_type :: "32 word"
  p_offset :: "64 word"
  p_vaddr :: "64 word"

record Elf_Dyn =
  d_tag :: "64 word"
  d_ptr :: "64 word"

record Elf_Sym =
  st_name :: "32 word"
  st_value :: "64 word"

text \<open>
  The code reinterprets raw addresses as pointers to these structures and never writes
  through them. The memory it reads is therefore a family of typed views: what a read of
  each structure type at an address yields, and the NUL-terminated string that starts at
  an address (what \<^verbatim>\<open>strcmp\<close> sees). The entry table is a fresh anonymous mapping and
  is kept apart from this memory.
\<close>

record memory =
  ehdr_at :: "addr \<Rightarrow> Elf_Ehdr"
  shdr_at :: "addr \<Rightarrow> Elf_Shdr"
  phdr_at :: "addr \<Rightarrow> Elf_Phdr"
  dyn_at :: "addr \<Rightarrow> Elf_Dyn"
  sym_at :: "addr \<Rightarrow> Elf_Sym"
  cstr_at :: "addr \<Rightarrow> string"

text \<open>
  Modelled from the spec: the constants and structure sizes of \<^verbatim>\<open><elf.h>\<close> are not
  part of the source file. They tag "the section carrying the dynamic symbol table", "the
  dynamic-section descriptor", "the loadable-segment descriptor", the "null-tag" that ends
  the dynamic section and its "string-table" and "symbol-table" entries; the values are
  those of the ELF64 format.
\<close>

definition SHT_DYNSYM :: "32 word" where "SHT_DYNSYM = 11"
definition PT_LOAD :: "32 word" where "PT_LOAD = 1"
definition PT_DYNAMIC :: "32 word" where "PT_DYNAMIC = 2"
definition DT_NULL :: "64 word" where "DT_NULL = 0"
definition DT_STRTAB :: "64 word" where "DT_STRTAB = 5"
definition DT_SYMTAB :: "64 word" where "DT_SYMTAB = 6"

definition sizeof_Shdr :: "64 word" where "sizeof_Shdr = 64"
definition sizeof_Phdr :: "64 word" where "sizeof_Phdr = 56"
definition sizeof_Dyn :: "64 word" where "sizeof_Dyn = 16"
definition sizeof_Sym :: "64 word" where "sizeof_Sym = 24"

subsection \<open>The entry table\<close>

datatype arch = AArch64 | X86_64

fun VDSO_CLOCK_GETTIME_SYMBOL :: "arch \<Rightarrow> string" where
  "VDSO_CLOCK_GETTIME_SYMBOL AArch64 = ''__kernel_clock_gettime''"
| "VDSO_CLOCK_GETTIME_SYMBOL X86_64 = ''__vdso_clock_gettime''"

fun VDSO_GETTIMEOFDAY_SYMBOL :: "arch \<Rightarrow> string" where
  "VDSO_GETTIMEOFDAY_SYMBOL AArch64 = ''__kernel_gettimeofday''"
| "VDSO_GETTIMEOFDAY_SYMBOL X86_64 = ''__vdso_gettimeofday''"

record vdso_entry =
  name :: string
  fn :: addr

datatype vdso_index = VDSO_CLOCK_GETTIME | VDSO_GETTIMEOFDAY

text \<open>The array of \<^verbatim>\<open>VDSO_END\<close> = 2 entries, indexed by the enumeration.\<close>

type_synonym vdso_table = "vdso_index \<Rightarrow> vdso_entry"

text \<open>The indices in the order of the loop \<^verbatim>\<open>for (j = 0; j < VDSO_END; ++j)\<close>.\<close>

definition vdso_indices :: "vdso_index list" where
  "vdso_indices = [VDSO_CLOCK_GETTIME, VDSO_GETTIMEOFDAY]"

definition vdso_entries_template :: "arch \<Rightarrow> addr \<Rightarrow> addr \<Rightarrow> vdso_table" where
  "vdso_entries_template a clock_gettime_fn gettimeofday_fn = (\<lambda>j. case j of
       VDSO_CLOCK_GETTIME \<Rightarrow> \<lparr>name = VDSO_CLOCK_GETTIME_SYMBOL a, fn = clock_gettime_fn\<rparr>
     | VDSO_GETTIMEOFDAY \<Rightarrow> \<lparr>name = VDSO_GETTIMEOFDAY_SYMBOL a, fn = gettimeofday_fn\<rparr>)"

subsection \<open>The process and its environment\<close>

datatype protection = PROT_READ_WRITE | PROT_READ

text \<open>
  The state the initializer changes: the static pointer \<^verbatim>\<open>vdso_entries\<close>, the contents
  of the page it points to, the protection of that page (\<open>None\<close> while it is not mapped),
  the name attached to the mapping, and what the fatal-abort primitive has printed.
\<close>

record process =
  vdso_entries_ptr :: addr
  vdso_entries :: vdso_table
  prot :: "protection option"
  vma_name :: "string option"
  diagnostics :: "string list"

text \<open>
  What the code consumes from outside: the target it is compiled for, the addresses of the
  system-call wrappers \<^verbatim>\<open>__clock_gettime\<close> and \<^verbatim>\<open>__gettimeofday\<close>, the value of
  \<^verbatim>\<open>getauxval(AT_SYSINFO_EHDR)\<close>, the memory holding the kernel's object, and the
  results of \<^verbatim>\<open>mmap\<close>, \<^verbatim>\<open>mprotect\<close> and \<^verbatim>\<open>prctl\<close> with the \<^verbatim>\<open>errno\<close> each
  failure leaves, and \<^verbatim>\<open>strerror\<close>.
\<close>

record env =
  target :: arch
  clock_gettime_syscall :: addr
  gettimeofday_syscall :: addr
  AT_SYSINFO_EHDR :: addr
  mem :: memory
  mmap_result :: addr
  mmap_errno :: int
  mprotect_result :: int
  mprotect_errno :: int
  prctl_result :: int
  strerror :: "int \<Rightarrow> string"

definition MAP_FAILED :: addr where
  "MAP_FAILED = - 1"

datatype run = Fatal process | Returned process

text \<open>\<^verbatim>\<open>__libc_fatal\<close> prints the formatted message and aborts the process.\<close>

definition libc_fatal :: "process \<Rightarrow> string \<Rightarrow> run" where
  "libc_fatal p msg = Fatal (p\<lparr>diagnostics := diagnostics p @ [msg]\<rparr>)"

subsection \<open>Discovery: \<^verbatim>\<open>__libc_init_vdso_entries\<close>\<close>

text \<open>The loop over the section headers (lines 88 to 92); \<open>i\<close> is the loop counter.\<close>

function scan_shdrs :: "memory \<Rightarrow> addr \<Rightarrow> nat \<Rightarrow> nat \<Rightarrow> 64 word \<Rightarrow> 64 word" where
  "scan_shdrs m vdso_shdr shnum i symbol_count =
     (if i < shnum then
        scan_shdrs m vdso_shdr shnum (Suc i)
          (if sh_type (shdr_at m (vdso_shdr + of_nat i * sizeof_Shdr)) = SHT_DYNSYM
           then sh_size (shdr_at m (vdso_shdr + of_nat i * sizeof_Shdr)) div sizeof_Sym
           else symbol_count)
      else symbol_count)"
  by pat_completeness auto
termination
  by (relation "measure (\<lambda>(m, vdso_shdr, shnum, i, symbol_count). shnum - i)") auto

declare scan_shdrs.simps [simp del]

text \<open>
  The loop over the program headers (lines 101 to 107); the pair carried along is
  (\<^verbatim>\<open>vdso_addr\<close>, \<^verbatim>\<open>vdso_dyn\<close>).
\<close>

function scan_phdrs ::
  "memory \<Rightarrow> addr \<Rightarrow> addr \<Rightarrow> nat \<Rightarrow> nat \<Rightarrow> addr \<times> addr \<Rightarrow> addr \<times> addr" where
  "scan_phdrs m vdso_ehdr_addr vdso_phdr phnum i (vdso_addr, vdso_dyn) =
     (if i < phnum then
        scan_phdrs m vdso_ehdr_addr vdso_phdr phnum (Suc i)
          (if p_type (phdr_at m (vdso_phdr + of_nat i * sizeof_Phdr)) = PT_DYNAMIC
           then (vdso_addr,
                 vdso_ehdr_addr + p_offset (phdr_at m (vdso_phdr + of_nat i * sizeof_Phdr)))
           else if p_type (phdr_at m (vdso_phdr + of_nat i * sizeof_Phdr)) = PT_LOAD
           then (vdso_ehdr_addr + p_offset (phdr_at m (vdso_phdr + of_nat i * sizeof_Phdr))
                   - p_vaddr (phdr_at m (vdso_phdr + of_nat i * sizeof_Phdr)),
                 vdso_dyn)
           else (vdso_addr, vdso_dyn))
      else (vdso_addr, vdso_dyn))"
  by pat_completeness auto
termination
  by (relation "measure (\<lambda>(m, vdso_ehdr_addr, vdso_phdr, phnum, i, st). phnum - i)") auto

declare scan_phdrs.simps [simp del]

text \<open>
  The walk over the dynamic section (lines 115 to 121), from \<open>d\<close> until an entry tagged
  \<^verbatim>\<open>DT_NULL\<close>; the pair carried along is (\<^verbatim>\<open>strtab\<close>, \<^verbatim>\<open>symtab\<close>). Nothing bounds
  the walk, so it need not end: \<open>None\<close> is the walk that never meets \<^verbatim>\<open>DT_NULL\<close>.
\<close>

partial_function (option) scan_dyn ::
  "memory \<Rightarrow> addr \<Rightarrow> addr \<Rightarrow> addr \<times> addr \<Rightarrow> (addr \<times> addr) option" where
  "scan_dyn m vdso_addr d st =
     (if d_tag (dyn_at m d) = DT_NULL then Some st
      else scan_dyn m vdso_addr (d + sizeof_Dyn)
             (if d_tag (dyn_at m d) = DT_STRTAB then (vdso_addr + d_ptr (dyn_at m d), snd st)
              else if d_tag (dyn_at m d) = DT_SYMTAB then (fst st, vdso_addr + d_ptr (dyn_at m d))
              else st))"

declare scan_dyn.simps [code]

text \<open>
  The inner loop over the entries (lines 128 to 132) for one symbol: \<open>s\<close> is the string
  at \<^verbatim>\<open>strtab + symtab[i].st_name\<close>, \<open>a\<close> is \<^verbatim>\<open>vdso_addr + symtab[i].st_value\<close>, and
  \<^verbatim>\<open>strcmp\<close> returns 0 exactly for equal strings.
\<close>

fun match_entries :: "string \<Rightarrow> addr \<Rightarrow> vdso_index list \<Rightarrow> vdso_table \<Rightarrow> vdso_table" where
  "match_entries s a [] t = t"
| "match_entries s a (j # js) t =
     match_entries s a js (if name (t j) = s then t(j := (t j)\<lparr>fn := a\<rparr>) else t)"

text \<open>The outer loop over the symbols (lines 127 to 133).\<close>

function scan_symbols ::
  "memory \<Rightarrow> addr \<Rightarrow> addr \<Rightarrow> addr \<Rightarrow> nat \<Rightarrow> nat \<Rightarrow> vdso_table \<Rightarrow> vdso_table" where
  "scan_symbols m vdso_addr strtab symtab symbol_count i t =
     (if i < symbol_count then
        scan_symbols m vdso_addr strtab symtab symbol_count (Suc i)
          (match_entries
             (cstr_at m (strtab + ucast (st_name (sym_at m (symtab + of_nat i * sizeof_Sym)))))
             (vdso_addr + st_value (sym_at m (symtab + of_nat i * sizeof_Sym)))
             vdso_indices t)
      else t)"
  by pat_completeness auto
termination
  by (relation "measure (\<lambda>(m, vdso_addr, strtab, symtab, symbol_count, i, t). symbol_count - i)")
    auto

declare scan_symbols.simps [simp del]

definition libc_init_vdso_entries :: "env \<Rightarrow> process \<Rightarrow> process option" where
  "libc_init_vdso_entries e p =
     (let p1 = p\<lparr>vdso_entries :=
                  vdso_entries_template (target e) (clock_gettime_syscall e)
                    (gettimeofday_syscall e)\<rparr>;
          vdso_ehdr_addr = AT_SYSINFO_EHDR e
      in if vdso_ehdr_addr = 0 then Some p1
      else
        let vdso_ehdr = ehdr_at (mem e) vdso_ehdr_addr;
            symbol_count = scan_shdrs (mem e) (vdso_ehdr_addr + e_shoff vdso_ehdr)
                             (unat (e_shnum vdso_ehdr)) 0 0
        in if symbol_count = 0 then Some p1
        else
          let (vdso_addr, vdso_dyn) =
                scan_phdrs (mem e) vdso_ehdr_addr (vdso_ehdr_addr + e_phoff vdso_ehdr)
                  (unat (e_phnum vdso_ehdr)) 0 (0, 0)
          in if vdso_addr = 0 \<or> vdso_dyn = 0 then Some p1
          else
            (case scan_dyn (mem e) vdso_addr vdso_dyn (0, 0) of
               None \<Rightarrow> None
             | Some (strtab, symtab) \<Rightarrow>
                 if strtab = 0 \<or> symtab = 0 then Some p1
                 else Some (p1\<lparr>vdso_entries :=
                              scan_symbols (mem e) vdso_addr strtab symtab
                                (unat symbol_count) 0 (vdso_entries p1)\<rparr>)))"

subsection \<open>The initializer: \<^verbatim>\<open>__libc_init_vdso\<close>\<close>

definition libc_init_vdso :: "env \<Rightarrow> process \<Rightarrow> run option" where
  "libc_init_vdso e p =
     (let p1 = p\<lparr>vdso_entries_ptr := mmap_result e\<rparr>
      in if vdso_entries_ptr p1 = MAP_FAILED then
           Some (libc_fatal p1 (''failed to allocate vdso function pointer table: ''
                                 @ strerror e (mmap_errno e)))
         else
           (case libc_init_vdso_entries e (p1\<lparr>prot := Some PROT_READ_WRITE\<rparr>) of
              None \<Rightarrow> None
            | Some p2 \<Rightarrow>
                if mprotect_result e = - 1 then
                  Some (libc_fatal p2
                          (''failed to mprotect PROT_READ vdso function pointer table: ''
                           @ strerror e (mprotect_errno e)))
                else
                  Some (Returned (p2\<lparr>prot := Some PROT_READ,
                                     vma_name := (if prctl_result e = 0
                                                  then Some ''vdso function pointer table''
                                                  else vma_name p2)\<rparr>))))"

subsection \<open>The trampolines\<close>

text \<open>
  Calling through a function pointer runs whatever code sits at that address. \<open>'w\<close> is
  everything a callee can change that the caller can see (the output structures, \<^verbatim>\<open>errno\<close>);
  the two fields give the behaviour of the code at an address under each of the two
  signatures the pointers are cast to.
\<close>

record 'w machine =
  call_int_ptr :: "addr \<Rightarrow> 32 word \<Rightarrow> addr \<Rightarrow> 'w \<Rightarrow> 32 word \<times> 'w"
  call_ptr_ptr :: "addr \<Rightarrow> addr \<Rightarrow> addr \<Rightarrow> 'w \<Rightarrow> 32 word \<times> 'w"

definition clock_gettime ::
  "'w machine \<Rightarrow> process \<Rightarrow> 32 word \<Rightarrow> addr \<Rightarrow> 'w \<Rightarrow> 32 word \<times> 'w" where
  "clock_gettime M p clock_id tp w =
     (let vdso_clock_gettime = call_int_ptr M (fn (vdso_entries p VDSO_CLOCK_GETTIME))
      in vdso_clock_gettime clock_id tp w)"

definition gettimeofday ::
  "'w machine \<Rightarrow> process \<Rightarrow> addr \<Rightarrow> addr \<Rightarrow> 'w \<Rightarrow> 32 word \<times> 'w" where
  "gettimeofday M p tv tz w =
     (let vdso_gettimeofday = call_ptr_ptr M (fn (vdso_entries p VDSO_GETTIMEOFDAY))
      in vdso_gettimeofday tv tz w)"

section \<open>Reading the tables\<close>

text \<open>
  The array accesses of the source, \<^verbatim>\<open>vdso_shdr[i]\<close>, \<^verbatim>\<open>vdso_phdr[i]\<close>, \<^verbatim>\<open>vdso_dyn[i]\<close>
  and \<^verbatim>\<open>symtab[i]\<close>, and the name of the \<open>i\<close>-th symbol, the string at
  \<^verbatim>\<open>strtab + symtab[i].st_name\<close>.
\<close>

definition nth_shdr :: "memory \<Rightarrow> addr \<Rightarrow> nat \<Rightarrow> Elf_Shdr" where
  "nth_shdr m vdso_shdr i = shdr_at m (vdso_shdr + of_nat i * sizeof_Shdr)"

definition nth_phdr :: "memory \<Rightarrow> addr \<Rightarrow> nat \<Rightarrow> Elf_Phdr" where
  "nth_phdr m vdso_phdr i = phdr_at m (vdso_phdr + of_nat i * sizeof_Phdr)"

definition nth_dyn :: "memory \<Rightarrow> addr \<Rightarrow> nat \<Rightarrow> Elf_Dyn" where
  "nth_dyn m vdso_dyn i = dyn_at m (vdso_dyn + of_nat i * sizeof_Dyn)"

definition nth_sym :: "memory \<Rightarrow> addr \<Rightarrow> nat \<Rightarrow> Elf_Sym" where
  "nth_sym m symtab i = sym_at m (symtab + of_nat i * sizeof_Sym)"

definition sym_name :: "memory \<Rightarrow> addr \<Rightarrow> addr \<Rightarrow> nat \<Rightarrow> string" where
  "sym_name m strtab symtab i = cstr_at m (strtab + ucast (st_name (nth_sym m symtab i)))"

text \<open>
  Every loop of the discovery overwrites a variable whenever an entry matches, so the last
  matching entry decides: \<open>last_wins P f ks c\<close> is \<open>f k\<close> for the last \<open>k\<close> of \<open>ks\<close> with
  \<open>P k\<close>, and \<open>c\<close> when there is none.
\<close>

definition last_wins :: "(nat \<Rightarrow> bool) \<Rightarrow> (nat \<Rightarrow> 'a) \<Rightarrow> nat list \<Rightarrow> 'a \<Rightarrow> 'a" where
  "last_wins P f ks c = fold (\<lambda>k c. if P k then f k else c) ks c"


section \<open>What the discovery has found\<close>

definition vdso_ehdr :: "env \<Rightarrow> Elf_Ehdr" where
  "vdso_ehdr e = ehdr_at (mem e) (AT_SYSINFO_EHDR e)"

definition vdso_shdr :: "env \<Rightarrow> nat \<Rightarrow> Elf_Shdr" where
  "vdso_shdr e i = nth_shdr (mem e) (AT_SYSINFO_EHDR e + e_shoff (vdso_ehdr e)) i"

definition vdso_phdr :: "env \<Rightarrow> nat \<Rightarrow> Elf_Phdr" where
  "vdso_phdr e i = nth_phdr (mem e) (AT_SYSINFO_EHDR e + e_phoff (vdso_ehdr e)) i"

text \<open>The table after the \<^verbatim>\<open>memcpy\<close> of line 76: every slot holds its fallback.\<close>

definition template_of :: "env \<Rightarrow> vdso_table" where
  "template_of e =
     vdso_entries_template (target e) (clock_gettime_syscall e) (gettimeofday_syscall e)"

text \<open>
  The values of \<^verbatim>\<open>symbol_count\<close>, \<^verbatim>\<open>vdso_addr\<close> and \<^verbatim>\<open>vdso_dyn\<close> when the code
  reaches the walk over the dynamic section at line 115; \<open>None\<close> when it has returned
  before.
\<close>

definition walk_start :: "env \<Rightarrow> (64 word \<times> addr \<times> addr) option" where
  "walk_start e =
     (if AT_SYSINFO_EHDR e = 0 then None
      else
        let symbol_count = scan_shdrs (mem e) (AT_SYSINFO_EHDR e + e_shoff (vdso_ehdr e))
                             (unat (e_shnum (vdso_ehdr e))) 0 0;
            (vdso_addr, vdso_dyn) =
                scan_phdrs (mem e) (AT_SYSINFO_EHDR e) (AT_SYSINFO_EHDR e + e_phoff (vdso_ehdr e))
                  (unat (e_phnum (vdso_ehdr e))) 0 (0, 0)
        in if symbol_count = 0 \<or> vdso_addr = 0 \<or> vdso_dyn = 0 then None
           else Some (symbol_count, vdso_addr, vdso_dyn))"

text \<open>
  The values of \<^verbatim>\<open>symbol_count\<close>, \<^verbatim>\<open>vdso_addr\<close>, \<^verbatim>\<open>strtab\<close> and \<^verbatim>\<open>symtab\<close> when
  the code reaches the scan of the symbols at line 127; \<open>None\<close> when it does not.
\<close>

definition located :: "env \<Rightarrow> (64 word \<times> addr \<times> addr \<times> addr) option" where
  "located e =
     (case walk_start e of
        None \<Rightarrow> None
      | Some (symbol_count, vdso_addr, vdso_dyn) \<Rightarrow>
          (case scan_dyn (mem e) vdso_addr vdso_dyn (0, 0) of
             None \<Rightarrow> None
           | Some (strtab, symtab) \<Rightarrow>
               if strtab = 0 \<or> symtab = 0 then None
               else Some (symbol_count, vdso_addr, strtab, symtab)))"

text \<open>
  The address a slot holds once the initializer has returned; \<open>None\<close> when it has not
  returned (it aborted, or is still walking).
\<close>

definition slot_after :: "env \<Rightarrow> process \<Rightarrow> vdso_index \<Rightarrow> addr option" where
  "slot_after e p j =
     (case libc_init_vdso e p of
        Some (Returned q) \<Rightarrow> Some (fn (vdso_entries q j))
      | _ \<Rightarrow> None)"

text \<open>The value of \<^verbatim>\<open>symbol_count\<close> after the loop over the section headers.\<close>

definition symbol_count_of :: "env \<Rightarrow> 64 word" where
  "symbol_count_of e =
     scan_shdrs (mem e) (AT_SYSINFO_EHDR e + e_shoff (vdso_ehdr e))
       (unat (e_shnum (vdso_ehdr e))) 0 0"

text \<open>
  The walk over the dynamic section, if the code gets that far, meets an entry tagged
  \<^verbatim>\<open>DT_NULL\<close> at index \<open>k\<close>: the section is null-tag terminated.
\<close>

definition walk_ends :: "env \<Rightarrow> nat \<Rightarrow> bool" where
  "walk_ends e k \<longleftrightarrow>
     (case walk_start e of
        None \<Rightarrow> True
      | Some (n, b, d) \<Rightarrow> d_tag (nth_dyn (mem e) d k) = DT_NULL)"

section \<open>The specification's reading of the load bias\<close>

text \<open>
  The bias as the specification words it: computed from the first loadable-segment
  descriptor of the program headers (and 0 when there is none).
\<close>

definition spec_first_load_bias :: "env \<Rightarrow> addr" where
  "spec_first_load_bias e =
     (case filter (\<lambda>k. p_type (vdso_phdr e k) = PT_LOAD) [0..<unat (e_phnum (vdso_ehdr e))] of
        [] \<Rightarrow> 0
      | k # ks \<Rightarrow> AT_SYSINFO_EHDR e + p_offset (vdso_phdr e k) - p_vaddr (vdso_phdr e k))"

section \<open>The specification's conditions\<close>

text \<open>
  The ways a discovery aborts, as the specification lists them: the auxiliary vector
  gives base address zero; no section carries the dynamic symbol table, or the symbol
  count derived from it is zero; the program headers have no dynamic-section descriptor,
  or no loadable-segment descriptor; the dynamic section (its null tag at index \<open>k\<close>)
  has no string-table entry, or no symbol-table entry.
\<close>

definition spec_discovery_aborts :: "env \<Rightarrow> nat \<Rightarrow> bool" where
  "spec_discovery_aborts e k \<longleftrightarrow>
     AT_SYSINFO_EHDR e = 0
   \<or> (\<forall>i \<in> set [0..<unat (e_shnum (vdso_ehdr e))]. sh_type (vdso_shdr e i) \<noteq> SHT_DYNSYM)
   \<or> symbol_count_of e = 0
   \<or> (\<forall>i \<in> set [0..<unat (e_phnum (vdso_ehdr e))]. p_type (vdso_phdr e i) \<noteq> PT_DYNAMIC)
   \<or> (\<forall>i \<in> set [0..<unat (e_phnum (vdso_ehdr e))]. p_type (vdso_phdr e i) \<noteq> PT_LOAD)
   \<or> (case walk_start e of
         None \<Rightarrow> False
       | Some (n, b, d) \<Rightarrow>
           d_tag (nth_dyn (mem e) d k) = DT_NULL \<and>
           (\<forall>i \<in> set [0..<k]. d_tag (nth_dyn (mem e) d i) \<noteq> DT_NULL) \<and>
           ((\<forall>i \<in> set [0..<k]. d_tag (nth_dyn (mem e) d i) \<noteq> DT_STRTAB) \<or>
            (\<forall>i \<in> set [0..<k]. d_tag (nth_dyn (mem e) d i) \<noteq> DT_SYMTAB)))"

text \<open>
  No symbol that carries the name of a slot has a value that the load bias takes to the
  null address: the sum of bias and value, which wraps around at \<open>2\<^sup>6\<^sup>4\<close>, is not 0.
\<close>

definition resolves_non_null :: "env \<Rightarrow> bool" where
  "resolves_non_null e \<longleftrightarrow>
     (case located e of
        None \<Rightarrow> True
      | Some (n, b, s, y) \<Rightarrow>
          (\<forall>k \<in> set [0..<unat n].
             sym_name (mem e) s y k = VDSO_CLOCK_GETTIME_SYMBOL (target e) \<or>
             sym_name (mem e) s y k = VDSO_GETTIMEOFDAY_SYMBOL (target e)
             \<longrightarrow> b + st_value (nth_sym (mem e) y k) \<noteq> 0))"

section \<open>Synthetic objects\<close>

text \<open>
  Concrete memories to run the code on. \<open>array_at a sz xs dflt\<close> is memory holding the
  array \<open>xs\<close> of elements of size \<open>sz\<close> at address \<open>a\<close>, and \<open>dflt\<close> everywhere else.
  \<open>image\<close> lays an object out at \<open>base\<close>: the program headers at offset \<open>0x40\<close>, the
  dynamic section at \<open>0x200\<close>, the section headers at \<open>0x400\<close>; the string table (a list
  of offsets and strings) and the symbol table are put at the addresses given.
\<close>

definition array_at :: "addr \<Rightarrow> 64 word \<Rightarrow> 'a list \<Rightarrow> 'a \<Rightarrow> addr \<Rightarrow> 'a" where
  "array_at a sz xs dflt x =
     (case map_of (zip (map (\<lambda>i. a + of_nat i * sz) [0..<length xs]) xs) x of
        None \<Rightarrow> dflt | Some v \<Rightarrow> v)"

definition image ::
  "addr \<Rightarrow> Elf_Shdr list \<Rightarrow> Elf_Phdr list \<Rightarrow> Elf_Dyn list \<Rightarrow> addr \<Rightarrow> (64 word \<times> string) list
     \<Rightarrow> addr \<Rightarrow> Elf_Sym list \<Rightarrow> memory" where
  "image base shdrs phdrs dyns strtab strs symtab syms =
     \<lparr>ehdr_at = (\<lambda>a. if a = base
                       then \<lparr>e_phoff = 0x40, e_shoff = 0x400,
                             e_phnum = of_nat (length phdrs), e_shnum = of_nat (length shdrs)\<rparr>
                       else \<lparr>e_phoff = 0, e_shoff = 0, e_phnum = 0, e_shnum = 0\<rparr>),
      shdr_at = array_at (base + 0x400) sizeof_Shdr shdrs \<lparr>sh_type = 0, sh_size = 0\<rparr>,
      phdr_at = array_at (base + 0x40) sizeof_Phdr phdrs
                  \<lparr>p_type = 0, p_offset = 0, p_vaddr = 0\<rparr>,
      dyn_at = array_at (base + 0x200) sizeof_Dyn dyns \<lparr>d_tag = 0, d_ptr = 0\<rparr>,
      sym_at = array_at symtab sizeof_Sym syms \<lparr>st_name = 0, st_value = 0\<rparr>,
      cstr_at = (\<lambda>a. case map_of strs (a - strtab) of None \<Rightarrow> [] | Some s \<Rightarrow> s)\<rparr>"

text \<open>
  A process on x86-64 whose auxiliary vector reports the object at \<open>0x7FFF0000\<close>, whose
  system-call wrappers sit at \<open>0x5000\<close> and \<open>0x6000\<close>, and where \<^verbatim>\<open>mmap\<close>,
  \<^verbatim>\<open>mprotect\<close> and \<^verbatim>\<open>prctl\<close> succeed.
\<close>

definition synthetic_env :: "memory \<Rightarrow> env" where
  "synthetic_env m =
     \<lparr>target = X86_64, clock_gettime_syscall = 0x5000, gettimeofday_syscall = 0x6000,
      AT_SYSINFO_EHDR = 0x7FFF0000, mem = m,
      mmap_result = 0x10000, mmap_errno = 0, mprotect_result = 0, mprotect_errno = 0,
      prctl_result = 0, strerror = (\<lambda>n. ''errno'')\<rparr>"

definition proc0 :: process where
  "proc0 = \<lparr>vdso_entries_ptr = 0,
            vdso_entries = (\<lambda>j. \<lparr>name = [], fn = 0\<rparr>),
            prot = None, vma_name = None, diagnostics = []\<rparr>"

text \<open>The program headers and the dynamic section most of the objects below share.\<close>

definition plain_phdrs :: "Elf_Phdr list" where
  "plain_phdrs = [\<lparr>p_type = PT_LOAD, p_offset = 0, p_vaddr = 0\<rparr>,
                  \<lparr>p_type = PT_DYNAMIC, p_offset = 0x200, p_vaddr = 0x200\<rparr>]"

definition plain_dyns :: "Elf_Dyn list" where
  "plain_dyns = [\<lparr>d_tag = DT_STRTAB, d_ptr = 0x300\<rparr>, \<lparr>d_tag = DT_SYMTAB, d_ptr = 0x340\<rparr>,
                 \<lparr>d_tag = DT_NULL, d_ptr = 0\<rparr>]"

definition plain_strs :: "(64 word \<times> string) list" where
  "plain_strs = [(0, []), (1, ''__vdso_clock_gettime''), (22, ''__vdso_gettimeofday'')]"

definition plain_shdrs :: "Elf_Shdr list" where
  "plain_shdrs = [\<lparr>sh_type = 0, sh_size = 0\<rparr>, \<lparr>sh_type = SHT_DYNSYM, sh_size = 48\<rparr>]"

text \<open>
  One wanted symbol: after the null symbol, the clock-read symbol with value \<open>0x1000\<close>.
\<close>

definition env_one_symbol :: env where
  "env_one_symbol = synthetic_env (image 0x7FFF0000 plain_shdrs plain_phdrs plain_dyns
      0x7FFF0300 plain_strs
      0x7FFF0340 [\<lparr>st_name = 0, st_value = 0\<rparr>, \<lparr>st_name = 1, st_value = 0x1000\<rparr>])"

text \<open>The clock-read symbol twice, with values \<open>0x1000\<close> and \<open>0x2000\<close>.\<close>

definition env_duplicate :: env where
  "env_duplicate = synthetic_env (image 0x7FFF0000 plain_shdrs plain_phdrs plain_dyns
      0x7FFF0300 plain_strs
      0x7FFF0340 [\<lparr>st_name = 1, st_value = 0x1000\<rparr>, \<lparr>st_name = 1, st_value = 0x2000\<rparr>])"

text \<open>
  Two sections of type \<^verbatim>\<open>SHT_DYNSYM\<close>, the first of 24 bytes (one symbol), the second
  of 48 bytes (two symbols).
\<close>

definition env_two_dynsym :: env where
  "env_two_dynsym = synthetic_env (image 0x7FFF0000
      [\<lparr>sh_type = SHT_DYNSYM, sh_size = 24\<rparr>, \<lparr>sh_type = SHT_DYNSYM, sh_size = 48\<rparr>]
      plain_phdrs plain_dyns 0x7FFF0300 plain_strs
      0x7FFF0340 [\<lparr>st_name = 0, st_value = 0\<rparr>, \<lparr>st_name = 1, st_value = 0x1000\<rparr>])"

text \<open>
  Two loadable segments with different biases: the first maps virtual address 0 to file
  offset 0, the second maps it to file offset \<open>0x1000\<close>. The string and symbol tables sit
  where the second bias puts them.
\<close>

definition env_two_loads :: env where
  "env_two_loads = synthetic_env (image 0x7FFF0000 plain_shdrs
      [\<lparr>p_type = PT_LOAD, p_offset = 0, p_vaddr = 0\<rparr>,
       \<lparr>p_type = PT_LOAD, p_offset = 0x1000, p_vaddr = 0\<rparr>,
       \<lparr>p_type = PT_DYNAMIC, p_offset = 0x200, p_vaddr = 0x200\<rparr>]
      plain_dyns 0x7FFF1300 plain_strs
      0x7FFF1340 [\<lparr>st_name = 0, st_value = 0\<rparr>, \<lparr>st_name = 1, st_value = 0x1000\<rparr>])"

text \<open>
  A dynamic section with a symbol table and no string table, in an object that is
  otherwise the one with the single wanted symbol.
\<close>

definition env_no_strtab :: env where
  "env_no_strtab = synthetic_env (image 0x7FFF0000 plain_shdrs plain_phdrs
      [\<lparr>d_tag = DT_SYMTAB, d_ptr = 0x340\<rparr>, \<lparr>d_tag = DT_NULL, d_ptr = 0\<rparr>]
      0x7FFF0300 plain_strs
      0x7FFF0340 [\<lparr>st_name = 0, st_value = 0\<rparr>, \<lparr>st_name = 1, st_value = 0x1000\<rparr>])"

text \<open>
  The clock-read symbol with the value \<open>2\<^sup>6\<^sup>4 - 0x7FFF0000\<close>, which the load bias
  \<open>0x7FFF0000\<close> takes to 0.
\<close>

definition env_wraps_to_null :: env where
  "env_wraps_to_null = synthetic_env (image 0x7FFF0000 plain_shdrs plain_phdrs plain_dyns
      0x7FFF0300 plain_strs
      0x7FFF0340 [\<lparr>st_name = 0, st_value = 0\<rparr>,
                  \<lparr>st_name = 1, st_value = 0xFFFFFFFF80010000\<rparr>])"

text \<open>The process in which \<^verbatim>\<open>mmap\<close> fails, leaving \<^verbatim>\<open>errno\<close> 12.\<close>

definition env_mmap_fails :: env where
  "env_mmap_fails = env_one_symbol\<lparr>mmap_result := MAP_FAILED, mmap_errno := 12\<rparr>"

section \<open>The loops, entry by entry\<close>

lemma last_wins_Nil [simp]: "last_wins P f [] c = c"
  by (simp add: last_wins_def)

lemma last_wins_Cons [simp]:
  "last_wins P f (k # ks) c = last_wins P f ks (if P k then f k else c)"
  by (simp add: last_wins_def)

lemma last_wins_append [simp]:
  "last_wins P f (ks @ ls) c = last_wins P f ls (last_wins P f ks c)"
  by (simp add: last_wins_def)

lemma last_wins_none: "(\<And>k. k \<in> set ks \<Longrightarrow> \<not> P k) \<Longrightarrow> last_wins P f ks c = c"
  by (induction ks arbitrary: c) simp_all

lemma last_wins_cases:
  "last_wins P f ks c = c \<or> (\<exists>k \<in> set ks. P k \<and> last_wins P f ks c = f k)"
proof (induction ks arbitrary: c)
  case Nil
  show ?case by simp
next
  case (Cons k ks)
  show ?case
    using Cons.IH [of "if P k then f k else c"] by (auto split: if_splits)
qed

lemma last_wins_upt:
  assumes "i \<le> k" and "k < n" and "P k" and "\<And>l. k < l \<Longrightarrow> l < n \<Longrightarrow> \<not> P l"
  shows "last_wins P f [i..<n] c = f k"
proof -
  have "[i..<n] = [i..<k] @ k # [Suc k..<n]"
  proof -
    have "[i..<n] = [i..<k] @ [k..<n]"
      using assms(1,2) upt_add_eq_append [of i k "n - k"] by simp
    then show ?thesis
      using assms(2) by (simp add: upt_conv_Cons)
  qed
  moreover have "last_wins P f [Suc k..<n] (f k) = f k"
    using assms(4) by (intro last_wins_none) auto
  ultimately show ?thesis
    using assms(3) by simp
qed

lemma last_wins_upt_none:
  "(\<And>k. i \<le> k \<Longrightarrow> k < n \<Longrightarrow> \<not> P k) \<Longrightarrow> last_wins P f [i..<n] c = c"
  by (intro last_wins_none) auto

lemma scan_shdrs_last_wins:
  "scan_shdrs m a n i c =
     last_wins (\<lambda>k. sh_type (nth_shdr m a k) = SHT_DYNSYM)
       (\<lambda>k. sh_size (nth_shdr m a k) div sizeof_Sym) [i..<n] c"
proof (induction m a n i c rule: scan_shdrs.induct)
  case (1 m a n i c)
  show ?case
  proof (cases "i < n")
    case True
    then show ?thesis
      using "1.IH" by (subst scan_shdrs.simps) (simp add: upt_conv_Cons nth_shdr_def)
  next
    case False
    then show ?thesis by (subst scan_shdrs.simps) simp
  qed
qed

lemma scan_phdrs_fst:
  "fst (scan_phdrs m base a n i (va, vd)) =
     last_wins (\<lambda>k. p_type (nth_phdr m a k) = PT_LOAD)
       (\<lambda>k. base + p_offset (nth_phdr m a k) - p_vaddr (nth_phdr m a k)) [i..<n] va"
proof (induction m base a n i "(va, vd)" arbitrary: va vd rule: scan_phdrs.induct)
  case (1 m base a n i va vd)
  show ?case
  proof (cases "i < n")
    case True
    then show ?thesis
      using "1.hyps"
      by (subst scan_phdrs.simps)
         (simp add: upt_conv_Cons nth_phdr_def PT_LOAD_def PT_DYNAMIC_def)
  next
    case False
    then show ?thesis by (subst scan_phdrs.simps) simp
  qed
qed

lemma scan_phdrs_snd:
  "snd (scan_phdrs m base a n i (va, vd)) =
     last_wins (\<lambda>k. p_type (nth_phdr m a k) = PT_DYNAMIC)
       (\<lambda>k. base + p_offset (nth_phdr m a k)) [i..<n] vd"
proof (induction m base a n i "(va, vd)" arbitrary: va vd rule: scan_phdrs.induct)
  case (1 m base a n i va vd)
  show ?case
  proof (cases "i < n")
    case True
    then show ?thesis
      using "1.hyps"
      by (subst scan_phdrs.simps)
         (simp add: upt_conv_Cons nth_phdr_def PT_LOAD_def PT_DYNAMIC_def)
  next
    case False
    then show ?thesis by (subst scan_phdrs.simps) simp
  qed
qed

lemma match_entries_name [simp]: "name (match_entries s a js t j) = name (t j)"
  by (induction s a js t rule: match_entries.induct) simp_all

lemma match_entries_fn:
  "fn (match_entries s a js t j) = (if j \<in> set js \<and> name (t j) = s then a else fn (t j))"
  by (induction s a js t rule: match_entries.induct) auto

lemma vdso_indices_all [simp]: "j \<in> set vdso_indices"
  by (cases j) (simp_all add: vdso_indices_def)

lemma scan_symbols_name [simp]:
  "name (scan_symbols m b strtab symtab n i t j) = name (t j)"
proof (induction m b strtab symtab n i t rule: scan_symbols.induct)
  case (1 m b strtab symtab n i t)
  show ?case
  proof (cases "i < n")
    case True
    then show ?thesis
      using "1.IH" by (subst scan_symbols.simps) simp
  next
    case False
    then show ?thesis by (subst scan_symbols.simps) simp
  qed
qed

lemma scan_symbols_fn:
  "fn (scan_symbols m b strtab symtab n i t j) =
     last_wins (\<lambda>k. sym_name m strtab symtab k = name (t j))
       (\<lambda>k. b + st_value (nth_sym m symtab k)) [i..<n] (fn (t j))"
proof (induction m b strtab symtab n i t rule: scan_symbols.induct)
  case (1 m b strtab symtab n i t)
  show ?case
  proof (cases "i < n")
    case True
    then show ?thesis
      using "1.IH"
      by (subst scan_symbols.simps)
         (auto simp add: upt_conv_Cons match_entries_fn sym_name_def nth_sym_def)
  next
    case False
    then show ?thesis by (subst scan_symbols.simps) simp
  qed
qed

lemma last_wins_some:
  "k \<in> set ks \<Longrightarrow> P k \<Longrightarrow> \<exists>l \<in> set ks. P l \<and> last_wins P f ks c = f l"
proof (induction ks arbitrary: c rule: rev_induct)
  case Nil
  then show ?case by simp
next
  case (snoc x xs)
  show ?case
  proof (cases "P x")
    case True
    then show ?thesis by auto
  next
    case False
    with snoc.prems have "k \<in> set xs" by auto
    from snoc.IH [OF this snoc.prems(2), of c] False show ?thesis by auto
  qed
qed

text \<open>
  The walk over the dynamic section ends at the first entry tagged \<^verbatim>\<open>DT_NULL\<close>, when
  there is one, and the entries before it decide the two tables.
\<close>

lemma scan_dyn_first_null:
  assumes "d_tag (nth_dyn m d k) = DT_NULL"
    and "\<And>l. i \<le> l \<Longrightarrow> l < k \<Longrightarrow> d_tag (nth_dyn m d l) \<noteq> DT_NULL"
    and "i \<le> k"
  shows "scan_dyn m b (d + of_nat i * sizeof_Dyn) (s, y) =
           Some (last_wins (\<lambda>l. d_tag (nth_dyn m d l) = DT_STRTAB)
                   (\<lambda>l. b + d_ptr (nth_dyn m d l)) [i..<k] s,
                 last_wins (\<lambda>l. d_tag (nth_dyn m d l) = DT_SYMTAB)
                   (\<lambda>l. b + d_ptr (nth_dyn m d l)) [i..<k] y)"
  using assms(2,3)
proof (induction "k - i" arbitrary: i s y)
  case 0
  then have "i = k" by simp
  then show ?case
    using assms(1) by (subst scan_dyn.simps) (simp add: nth_dyn_def)
next
  case (Suc n)
  then have lt: "i < k" by simp
  have nn: "d_tag (dyn_at m (d + of_nat i * sizeof_Dyn)) \<noteq> DT_NULL"
    using Suc.prems(1) [of i] lt by (simp add: nth_dyn_def)
  have step: "d + of_nat i * sizeof_Dyn + sizeof_Dyn = d + of_nat (Suc i) * sizeof_Dyn"
    by (simp add: algebra_simps)
  have IH: "scan_dyn m b (d + of_nat (Suc i) * sizeof_Dyn) (s', y') =
           Some (last_wins (\<lambda>l. d_tag (nth_dyn m d l) = DT_STRTAB)
                   (\<lambda>l. b + d_ptr (nth_dyn m d l)) [Suc i..<k] s',
                 last_wins (\<lambda>l. d_tag (nth_dyn m d l) = DT_SYMTAB)
                   (\<lambda>l. b + d_ptr (nth_dyn m d l)) [Suc i..<k] y')" for s' y'
    using Suc.hyps(2) Suc.prems lt by (intro Suc.hyps(1)) auto
  show ?case
    using nn lt
    by (subst scan_dyn.simps)
       (simp add: step IH upt_conv_Cons nth_dyn_def DT_STRTAB_def DT_SYMTAB_def
          del: of_nat_Suc)
qed

lemma scan_dyn_terminates:
  assumes "d_tag (nth_dyn m d k) = DT_NULL"
  shows "\<exists>r. scan_dyn m b d st = Some r"
proof -
  obtain k' where k': "d_tag (nth_dyn m d k') = DT_NULL"
    and least: "\<And>l. l < k' \<Longrightarrow> d_tag (nth_dyn m d l) \<noteq> DT_NULL"
    using assms exists_least_iff [of "\<lambda>l. d_tag (nth_dyn m d l) = DT_NULL"] by blast
  obtain s y where st: "st = (s, y)" by (cases st)
  show ?thesis
    using scan_dyn_first_null [OF k', of 0 b s y] least by (simp add: st)
qed

section \<open>Discovery, stage by stage\<close>

lemma init_entries_unfold:
  "libc_init_vdso_entries e p =
     (case walk_start e of
        None \<Rightarrow> Some (p\<lparr>vdso_entries := template_of e\<rparr>)
      | Some (n, b, d) \<Rightarrow>
          (case scan_dyn (mem e) b d (0, 0) of
             None \<Rightarrow> None
           | Some (s, y) \<Rightarrow>
               if s = 0 \<or> y = 0 then Some (p\<lparr>vdso_entries := template_of e\<rparr>)
               else Some (p\<lparr>vdso_entries :=
                              scan_symbols (mem e) b s y (unat n) 0 (template_of e)\<rparr>)))"
  by (simp add: libc_init_vdso_entries_def walk_start_def template_of_def vdso_ehdr_def
        Let_def split: prod.splits option.splits)

lemma init_entries_located:
  "located e = Some (n, b, s, y) \<Longrightarrow>
     libc_init_vdso_entries e p =
       Some (p\<lparr>vdso_entries := scan_symbols (mem e) b s y (unat n) 0 (template_of e)\<rparr>)"
  by (auto simp add: init_entries_unfold located_def split: option.splits prod.splits if_splits)

lemma init_entries_not_located:
  "located e = None \<Longrightarrow> libc_init_vdso_entries e p = Some q \<Longrightarrow>
     q = p\<lparr>vdso_entries := template_of e\<rparr>"
  by (auto simp add: init_entries_unfold located_def split: option.splits prod.splits if_splits)

lemma located_symbol_count:
  "located e = Some (n, b, s, y) \<Longrightarrow>
     n = last_wins (\<lambda>k. sh_type (vdso_shdr e k) = SHT_DYNSYM)
           (\<lambda>k. sh_size (vdso_shdr e k) div sizeof_Sym) [0..<unat (e_shnum (vdso_ehdr e))] 0"
  by (auto simp add: located_def walk_start_def Let_def scan_shdrs_last_wins vdso_shdr_def
        split: option.splits prod.splits if_splits)

lemma walk_start_bias:
  "walk_start e = Some (n, b, d) \<Longrightarrow>
     b = last_wins (\<lambda>k. p_type (vdso_phdr e k) = PT_LOAD)
           (\<lambda>k. AT_SYSINFO_EHDR e + p_offset (vdso_phdr e k) - p_vaddr (vdso_phdr e k))
           [0..<unat (e_phnum (vdso_ehdr e))] 0"
  using scan_phdrs_fst [of "mem e" "AT_SYSINFO_EHDR e"
      "AT_SYSINFO_EHDR e + e_phoff (vdso_ehdr e)" "unat (e_phnum (vdso_ehdr e))" 0 0 0]
  by (auto simp add: walk_start_def Let_def vdso_phdr_def split: prod.splits if_splits)

lemma walk_start_dyn:
  "walk_start e = Some (n, b, d) \<Longrightarrow>
     d = last_wins (\<lambda>k. p_type (vdso_phdr e k) = PT_DYNAMIC)
           (\<lambda>k. AT_SYSINFO_EHDR e + p_offset (vdso_phdr e k))
           [0..<unat (e_phnum (vdso_ehdr e))] 0"
  using scan_phdrs_snd [of "mem e" "AT_SYSINFO_EHDR e"
      "AT_SYSINFO_EHDR e + e_phoff (vdso_ehdr e)" "unat (e_phnum (vdso_ehdr e))" 0 0 0]
  by (auto simp add: walk_start_def Let_def vdso_phdr_def split: prod.splits if_splits)

lemma located_bias:
  "located e = Some (n, b, s, y) \<Longrightarrow>
     b \<noteq> 0 \<and>
     b = last_wins (\<lambda>k. p_type (vdso_phdr e k) = PT_LOAD)
           (\<lambda>k. AT_SYSINFO_EHDR e + p_offset (vdso_phdr e k) - p_vaddr (vdso_phdr e k))
           [0..<unat (e_phnum (vdso_ehdr e))] 0"
  using walk_start_bias [of e]
  by (auto simp add: located_def walk_start_def Let_def
        split: option.splits prod.splits if_splits)

lemma template_of_simps [simp]:
  "name (template_of e VDSO_CLOCK_GETTIME) = VDSO_CLOCK_GETTIME_SYMBOL (target e)"
  "name (template_of e VDSO_GETTIMEOFDAY) = VDSO_GETTIMEOFDAY_SYMBOL (target e)"
  "fn (template_of e VDSO_CLOCK_GETTIME) = clock_gettime_syscall e"
  "fn (template_of e VDSO_GETTIMEOFDAY) = gettimeofday_syscall e"
  by (simp_all add: template_of_def vdso_entries_template_def)

lemma located_slot:
  assumes "located e = Some (n, b, s, y)"
  shows "\<exists>q. libc_init_vdso_entries e p = Some q \<and>
             fn (vdso_entries q j) =
               last_wins (\<lambda>k. sym_name (mem e) s y k = name (template_of e j))
                 (\<lambda>k. b + st_value (nth_sym (mem e) y k)) [0..<unat n] (fn (template_of e j))"
  using init_entries_located [OF assms, of p] by (simp add: scan_symbols_fn)

lemma last_wins_changed: "last_wins P f [0..<n] c \<noteq> c \<Longrightarrow> \<exists>k < n. P k"
  using last_wins_none [of "[0..<n]" P f c] by auto

lemma walk_start_eq:
  "walk_start e =
     (let n = last_wins (\<lambda>k. sh_type (vdso_shdr e k) = SHT_DYNSYM)
                (\<lambda>k. sh_size (vdso_shdr e k) div sizeof_Sym)
                [0..<unat (e_shnum (vdso_ehdr e))] 0;
          b = last_wins (\<lambda>k. p_type (vdso_phdr e k) = PT_LOAD)
                (\<lambda>k. AT_SYSINFO_EHDR e + p_offset (vdso_phdr e k) - p_vaddr (vdso_phdr e k))
                [0..<unat (e_phnum (vdso_ehdr e))] 0;
          d = last_wins (\<lambda>k. p_type (vdso_phdr e k) = PT_DYNAMIC)
                (\<lambda>k. AT_SYSINFO_EHDR e + p_offset (vdso_phdr e k))
                [0..<unat (e_phnum (vdso_ehdr e))] 0
      in if AT_SYSINFO_EHDR e = 0 \<or> n = 0 \<or> b = 0 \<or> d = 0 then None else Some (n, b, d))"
proof -
  obtain va vd where sp: "scan_phdrs (mem e) (AT_SYSINFO_EHDR e)
      (AT_SYSINFO_EHDR e + e_phoff (vdso_ehdr e)) (unat (e_phnum (vdso_ehdr e))) 0 (0, 0) = (va, vd)"
    by (cases "scan_phdrs (mem e) (AT_SYSINFO_EHDR e)
      (AT_SYSINFO_EHDR e + e_phoff (vdso_ehdr e)) (unat (e_phnum (vdso_ehdr e))) 0 (0, 0)")
  have va: "va = last_wins (\<lambda>k. p_type (vdso_phdr e k) = PT_LOAD)
                (\<lambda>k. AT_SYSINFO_EHDR e + p_offset (vdso_phdr e k) - p_vaddr (vdso_phdr e k))
                [0..<unat (e_phnum (vdso_ehdr e))] 0"
    using scan_phdrs_fst [of "mem e" "AT_SYSINFO_EHDR e"
      "AT_SYSINFO_EHDR e + e_phoff (vdso_ehdr e)" "unat (e_phnum (vdso_ehdr e))" 0 0 0]
    by (simp add: sp vdso_phdr_def)
  have vd: "vd = last_wins (\<lambda>k. p_type (vdso_phdr e k) = PT_DYNAMIC)
                (\<lambda>k. AT_SYSINFO_EHDR e + p_offset (vdso_phdr e k))
                [0..<unat (e_phnum (vdso_ehdr e))] 0"
    using scan_phdrs_snd [of "mem e" "AT_SYSINFO_EHDR e"
      "AT_SYSINFO_EHDR e + e_phoff (vdso_ehdr e)" "unat (e_phnum (vdso_ehdr e))" 0 0 0]
    by (simp add: sp vdso_phdr_def)
  show ?thesis
    unfolding walk_start_def Let_def sp
    by (simp add: va [symmetric] vd [symmetric] scan_shdrs_last_wins vdso_shdr_def)
qed

lemma symbol_count_of_eq:
  "symbol_count_of e =
     last_wins (\<lambda>k. sh_type (vdso_shdr e k) = SHT_DYNSYM)
       (\<lambda>k. sh_size (vdso_shdr e k) div sizeof_Sym) [0..<unat (e_shnum (vdso_ehdr e))] 0"
  by (simp add: symbol_count_of_def scan_shdrs_last_wins vdso_shdr_def)

lemma walk_start_None_fallbacks:
  "walk_start e = None \<Longrightarrow> libc_init_vdso_entries e p = Some (p\<lparr>vdso_entries := template_of e\<rparr>)"
  by (simp add: init_entries_unfold)

lemma aborts_fallbacks:
  assumes "spec_discovery_aborts e k"
  shows "libc_init_vdso_entries e p = Some (p\<lparr>vdso_entries := template_of e\<rparr>)"
proof -
  consider (early) "walk_start e = None"
    | (walk) n b d where "walk_start e = Some (n, b, d)"
        "d_tag (nth_dyn (mem e) d k) = DT_NULL"
        "\<And>i. i < k \<Longrightarrow> d_tag (nth_dyn (mem e) d i) \<noteq> DT_NULL"
        "(\<forall>i \<in> set [0..<k]. d_tag (nth_dyn (mem e) d i) \<noteq> DT_STRTAB) \<or>
         (\<forall>i \<in> set [0..<k]. d_tag (nth_dyn (mem e) d i) \<noteq> DT_SYMTAB)"
  proof (cases "walk_start e")
    case None
    then show ?thesis by (rule early)
  next
    case (Some w)
    obtain n b d where w: "w = (n, b, d)" by (cases w)
    have ws: "walk_start e = Some (n, b, d)" using Some w by simp
    from ws have "AT_SYSINFO_EHDR e \<noteq> 0"
      and "last_wins (\<lambda>k. sh_type (vdso_shdr e k) = SHT_DYNSYM)
                (\<lambda>k. sh_size (vdso_shdr e k) div sizeof_Sym)
                [0..<unat (e_shnum (vdso_ehdr e))] 0 \<noteq> 0"
      and "last_wins (\<lambda>k. p_type (vdso_phdr e k) = PT_LOAD)
                (\<lambda>k. AT_SYSINFO_EHDR e + p_offset (vdso_phdr e k) - p_vaddr (vdso_phdr e k))
                [0..<unat (e_phnum (vdso_ehdr e))] 0 \<noteq> 0"
      and "last_wins (\<lambda>k. p_type (vdso_phdr e k) = PT_DYNAMIC)
                (\<lambda>k. AT_SYSINFO_EHDR e + p_offset (vdso_phdr e k))
                [0..<unat (e_phnum (vdso_ehdr e))] 0 \<noteq> 0"
      by (simp_all add: walk_start_eq Let_def split: if_splits)
    then have "AT_SYSINFO_EHDR e \<noteq> 0"
      and "\<not> (\<forall>i \<in> set [0..<unat (e_shnum (vdso_ehdr e))].
               sh_type (vdso_shdr e i) \<noteq> SHT_DYNSYM)"
      and "symbol_count_of e \<noteq> 0"
      and "\<not> (\<forall>i \<in> set [0..<unat (e_phnum (vdso_ehdr e))].
               p_type (vdso_phdr e i) \<noteq> PT_DYNAMIC)"
      and "\<not> (\<forall>i \<in> set [0..<unat (e_phnum (vdso_ehdr e))].
               p_type (vdso_phdr e i) \<noteq> PT_LOAD)"
      by (auto simp add: symbol_count_of_eq dest!: last_wins_changed)
    with assms ws show ?thesis
      by (intro walk [of n b d]) (auto simp add: spec_discovery_aborts_def)
  qed
  then show ?thesis
  proof cases
    case early
    then show ?thesis by (rule walk_start_None_fallbacks)
  next
    case (walk n b d)
    have dyn: "scan_dyn (mem e) b d (0, 0) =
           Some (last_wins (\<lambda>l. d_tag (nth_dyn (mem e) d l) = DT_STRTAB)
                   (\<lambda>l. b + d_ptr (nth_dyn (mem e) d l)) [0..<k] 0,
                 last_wins (\<lambda>l. d_tag (nth_dyn (mem e) d l) = DT_SYMTAB)
                   (\<lambda>l. b + d_ptr (nth_dyn (mem e) d l)) [0..<k] 0)"
      using scan_dyn_first_null [OF walk(2), of 0 b 0 0] walk(3) by simp
    from walk(4) have "last_wins (\<lambda>l. d_tag (nth_dyn (mem e) d l) = DT_STRTAB)
                   (\<lambda>l. b + d_ptr (nth_dyn (mem e) d l)) [0..<k] 0 = 0 \<or>
                 last_wins (\<lambda>l. d_tag (nth_dyn (mem e) d l) = DT_SYMTAB)
                   (\<lambda>l. b + d_ptr (nth_dyn (mem e) d l)) [0..<k] 0 = 0"
      by (auto simp add: last_wins_upt_none)
    then show ?thesis
      by (auto simp add: init_entries_unfold walk(1) dyn)
  qed
qed

section \<open>The initializer\<close>

lemma init_entries_names:
  "libc_init_vdso_entries e p = Some q \<Longrightarrow> name (vdso_entries q j) = name (template_of e j)"
  by (auto simp add: init_entries_unfold split: option.splits prod.splits if_splits)

lemma init_vdso_Returned:
  assumes "libc_init_vdso e p = Some (Returned q)"
  shows "\<exists>q0. libc_init_vdso_entries e
                (p\<lparr>vdso_entries_ptr := mmap_result e, prot := Some PROT_READ_WRITE\<rparr>) = Some q0 \<and>
              vdso_entries q = vdso_entries q0 \<and> diagnostics q = diagnostics q0 \<and>
              prot q = Some PROT_READ \<and>
              mmap_result e \<noteq> MAP_FAILED \<and> mprotect_result e \<noteq> - 1"
  using assms
  by (auto simp add: libc_init_vdso_def libc_fatal_def Let_def
        split: option.splits if_splits)

lemma init_vdso_returns:
  assumes "mmap_result e \<noteq> MAP_FAILED" and "mprotect_result e \<noteq> - 1"
    and "libc_init_vdso_entries e
           (p\<lparr>vdso_entries_ptr := mmap_result e, prot := Some PROT_READ_WRITE\<rparr>) = Some q0"
  shows "\<exists>q. libc_init_vdso e p = Some (Returned q) \<and> vdso_entries q = vdso_entries q0 \<and>
             diagnostics q = diagnostics q0 \<and> prot q = Some PROT_READ"
  using assms by (simp add: libc_init_vdso_def Let_def)

lemma synthetic_env_results:
  "mmap_result (synthetic_env m) \<noteq> MAP_FAILED" "mprotect_result (synthetic_env m) \<noteq> - 1"
  "target (synthetic_env m) = X86_64"
  by (simp_all add: synthetic_env_def MAP_FAILED_def)

lemma init_entries_diagnostics:
  "libc_init_vdso_entries e p = Some q \<Longrightarrow> diagnostics q = diagnostics p"
  by (auto simp add: init_entries_unfold split: option.splits prod.splits if_splits)

lemma init_entries_returns:
  assumes "walk_ends e k"
  shows "\<exists>q. libc_init_vdso_entries e p = Some q"
proof (cases "walk_start e")
  case None
  then show ?thesis by (simp add: init_entries_unfold)
next
  case (Some w)
  obtain n b d where w: "w = (n, b, d)" by (cases w)
  with Some assms have "d_tag (nth_dyn (mem e) d k) = DT_NULL"
    by (simp add: walk_ends_def)
  from scan_dyn_terminates [OF this, of b "(0, 0)"] obtain s y
    where "scan_dyn (mem e) b d (0, 0) = Some (s, y)" by auto
  with Some w show ?thesis by (simp add: init_entries_unfold)
qed

section \<open>The claims\<close>

text \<open>
  C9. When the section-header table holds more than one section of type
  \<^verbatim>\<open>SHT_DYNSYM\<close>, the symbol count that bounds the scan of the symbols comes from the
  byte size of the last of them in section-header order, divided by the size of a symbol;
  what earlier such sections gave is discarded. Here \<open>k\<close> is the last such section and
  \<open>n\<close> the count the scan runs with.
\<close>

theorem symbol_count_from_last_dynsym:
  assumes "located e = Some (n, b, s, y)"
    and "k < unat (e_shnum (vdso_ehdr e))"
    and "sh_type (vdso_shdr e k) = SHT_DYNSYM"
    and "\<And>l. k < l \<Longrightarrow> l < unat (e_shnum (vdso_ehdr e)) \<Longrightarrow> sh_type (vdso_shdr e l) \<noteq> SHT_DYNSYM"
  shows "n = sh_size (vdso_shdr e k) div sizeof_Sym \<and>
         libc_init_vdso_entries e p =
           Some (p\<lparr>vdso_entries :=
                    scan_symbols (mem e) b s y (unat (sh_size (vdso_shdr e k) div sizeof_Sym)) 0
                      (template_of e)\<rparr>)"
proof -
  have "n = sh_size (vdso_shdr e k) div sizeof_Sym"
    using located_symbol_count [OF assms(1)] assms(2-4)
    by (simp add: last_wins_upt [where k = k])
  with init_entries_located [OF assms(1), of p] show ?thesis by simp
qed

theorem symbol_count_from_last_dynsym_witness:
  "sh_type (vdso_shdr env_two_dynsym 0) = SHT_DYNSYM \<and>
   sh_size (vdso_shdr env_two_dynsym 0) div sizeof_Sym = 1 \<and>
   sh_type (vdso_shdr env_two_dynsym 1) = SHT_DYNSYM \<and>
   sh_size (vdso_shdr env_two_dynsym 1) div sizeof_Sym = 2 \<and>
   located env_two_dynsym = Some (2, 0x7FFF0000, 0x7FFF0300, 0x7FFF0340) \<and>
   libc_init_vdso_entries env_two_dynsym proc0 =
     Some (proc0\<lparr>vdso_entries :=
              scan_symbols (mem env_two_dynsym) 0x7FFF0000 0x7FFF0300 0x7FFF0340
                (unat (sh_size (vdso_shdr env_two_dynsym 1) div sizeof_Sym)) 0
                (template_of env_two_dynsym)\<rparr>)"
proof -
  have loc: "located env_two_dynsym = Some (2, 0x7FFF0000, 0x7FFF0300, 0x7FFF0340)"
    by code_simp
  have num: "unat (e_shnum (vdso_ehdr env_two_dynsym)) = 2"
    by code_simp
  have k: "(1::nat) < unat (e_shnum (vdso_ehdr env_two_dynsym))"
    by (simp add: num)
  have ty: "sh_type (vdso_shdr env_two_dynsym 1) = SHT_DYNSYM"
    by code_simp
  have later: "sh_type (vdso_shdr env_two_dynsym l) \<noteq> SHT_DYNSYM"
    if "1 < l" and "l < unat (e_shnum (vdso_ehdr env_two_dynsym))" for l
    using that by (simp add: num)
  have first: "sh_type (vdso_shdr env_two_dynsym 0) = SHT_DYNSYM"
    "sh_size (vdso_shdr env_two_dynsym 0) div sizeof_Sym = 1"
    "sh_size (vdso_shdr env_two_dynsym 1) div sizeof_Sym = 2"
    by code_simp+
  show ?thesis
    using symbol_count_from_last_dynsym [OF loc k ty later, of proc0] loc ty first
    by simp
qed

text \<open>
  C2. When the same wanted symbol name stands in more than one entry of the symbol table,
  the slot of that name ends up with the bias-translated value of the entry at the later
  scan position, and what an earlier match wrote is overwritten. Here \<open>i\<close> is an earlier
  entry and \<open>k\<close> the last entry that carries the name of slot \<open>j\<close>.
\<close>

theorem later_duplicate_symbol_wins:
  assumes "located e = Some (n, b, s, y)"
    and "i < k" and "k < unat n"
    and "sym_name (mem e) s y i = name (template_of e j)"
    and "sym_name (mem e) s y k = name (template_of e j)"
    and "\<And>l. k < l \<Longrightarrow> l < unat n \<Longrightarrow> sym_name (mem e) s y l \<noteq> name (template_of e j)"
  shows "\<exists>q. libc_init_vdso_entries e p = Some q \<and>
             fn (vdso_entries q j) = b + st_value (nth_sym (mem e) y k) \<and>
             (st_value (nth_sym (mem e) y i) \<noteq> st_value (nth_sym (mem e) y k)
                \<longrightarrow> fn (vdso_entries q j) \<noteq> b + st_value (nth_sym (mem e) y i))"
proof -
  obtain q where q: "libc_init_vdso_entries e p = Some q"
    and slot: "fn (vdso_entries q j) =
                 last_wins (\<lambda>k. sym_name (mem e) s y k = name (template_of e j))
                   (\<lambda>k. b + st_value (nth_sym (mem e) y k)) [0..<unat n] (fn (template_of e j))"
    using located_slot [OF assms(1), of p j] by blast
  have "fn (vdso_entries q j) = b + st_value (nth_sym (mem e) y k)"
    unfolding slot using assms(3,5,6) by (intro last_wins_upt) simp_all
  with q show ?thesis by simp
qed

theorem later_duplicate_symbol_wins_witness:
  "sym_name (mem env_duplicate) 0x7FFF0300 0x7FFF0340 0 = ''__vdso_clock_gettime'' \<and>
   sym_name (mem env_duplicate) 0x7FFF0300 0x7FFF0340 1 = ''__vdso_clock_gettime'' \<and>
   st_value (nth_sym (mem env_duplicate) 0x7FFF0340 0) = 0x1000 \<and>
   st_value (nth_sym (mem env_duplicate) 0x7FFF0340 1) = 0x2000 \<and>
   (\<exists>q. libc_init_vdso_entries env_duplicate proc0 = Some q \<and>
        fn (vdso_entries q VDSO_CLOCK_GETTIME) = 0x7FFF2000 \<and>
        fn (vdso_entries q VDSO_CLOCK_GETTIME) \<noteq> 0x7FFF1000)"
proof -
  have loc: "located env_duplicate = Some (2, 0x7FFF0000, 0x7FFF0300, 0x7FFF0340)"
    by code_simp
  have n0: "sym_name (mem env_duplicate) 0x7FFF0300 0x7FFF0340 0
              = name (template_of env_duplicate VDSO_CLOCK_GETTIME)"
    and n1: "sym_name (mem env_duplicate) 0x7FFF0300 0x7FFF0340 1
              = name (template_of env_duplicate VDSO_CLOCK_GETTIME)"
    by code_simp+
  have vals: "st_value (nth_sym (mem env_duplicate) 0x7FFF0340 0) = 0x1000"
    "st_value (nth_sym (mem env_duplicate) 0x7FFF0340 1) = 0x2000"
    "name (template_of env_duplicate VDSO_CLOCK_GETTIME) = ''__vdso_clock_gettime''"
    by code_simp+
  have later: "sym_name (mem env_duplicate) 0x7FFF0300 0x7FFF0340 l
                 \<noteq> name (template_of env_duplicate VDSO_CLOCK_GETTIME)"
    if "1 < l" and "l < unat (2 :: 64 word)" for l
    using that by simp
  show ?thesis
    using later_duplicate_symbol_wins [OF loc _ _ n0 n1 later, of proc0] n0 n1 vals
    by simp
qed

text \<open>
  C5. When the symbol table holds one of the two wanted names and not the other, the slot
  of the name it holds gets the discovered, bias-translated address (of the last entry
  \<open>k\<close> with that name), and the other slot \<open>j'\<close> still holds its fallback address, the
  one the template gave it.
\<close>

theorem only_matching_slot_changes:
  assumes "located e = Some (n, b, s, y)"
    and "j' \<noteq> j"
    and "k < unat n"
    and "sym_name (mem e) s y k = name (template_of e j)"
    and "\<And>l. k < l \<Longrightarrow> l < unat n \<Longrightarrow> sym_name (mem e) s y l \<noteq> name (template_of e j)"
    and "\<And>l. l < unat n \<Longrightarrow> sym_name (mem e) s y l \<noteq> name (template_of e j')"
  shows "\<exists>q. libc_init_vdso_entries e p = Some q \<and>
             fn (vdso_entries q j) = b + st_value (nth_sym (mem e) y k) \<and>
             fn (vdso_entries q j') = fn (template_of e j')"
proof -
  have "libc_init_vdso_entries e p =
          Some (p\<lparr>vdso_entries := scan_symbols (mem e) b s y (unat n) 0 (template_of e)\<rparr>)"
    (is "_ = Some ?q")
    by (rule init_entries_located [OF assms(1)])
  moreover have "fn (vdso_entries ?q j) = b + st_value (nth_sym (mem e) y k)"
    using assms(3-5) by (simp add: scan_symbols_fn last_wins_upt [where k = k])
  moreover have "fn (vdso_entries ?q j') = fn (template_of e j')"
    using assms(6) by (simp add: scan_symbols_fn last_wins_upt_none)
  ultimately show ?thesis by blast
qed

theorem only_matching_slot_changes_witness:
  "\<exists>q. libc_init_vdso_entries env_one_symbol proc0 = Some q \<and>
       fn (vdso_entries q VDSO_CLOCK_GETTIME) = 0x7FFF1000 \<and>
       fn (vdso_entries q VDSO_GETTIMEOFDAY) = 0x6000"
proof -
  have fb: "gettimeofday_syscall env_one_symbol = 0x6000"
    by code_simp
  have loc: "located env_one_symbol = Some (2, 0x7FFF0000, 0x7FFF0300, 0x7FFF0340)"
    by code_simp
  have n1: "sym_name (mem env_one_symbol) 0x7FFF0300 0x7FFF0340 1
              = name (template_of env_one_symbol VDSO_CLOCK_GETTIME)"
    by code_simp
  have val: "st_value (nth_sym (mem env_one_symbol) 0x7FFF0340 1) = 0x1000"
    by code_simp
  have later: "sym_name (mem env_one_symbol) 0x7FFF0300 0x7FFF0340 l
                 \<noteq> name (template_of env_one_symbol VDSO_CLOCK_GETTIME)"
    if "1 < l" and "l < unat (2 :: 64 word)" for l
    using that by simp
  have other: "sym_name (mem env_one_symbol) 0x7FFF0300 0x7FFF0340 l
                 \<noteq> name (template_of env_one_symbol VDSO_GETTIMEOFDAY)"
    if "l < unat (2 :: 64 word)" for l
  proof -
    from that have "l = 0 \<or> l = 1" by auto
    then show ?thesis
    proof
      assume "l = 0"
      show ?thesis unfolding \<open>l = 0\<close> by code_simp
    next
      assume "l = 1"
      show ?thesis unfolding \<open>l = 1\<close> by code_simp
    qed
  qed
  show ?thesis
    using only_matching_slot_changes
        [where j' = VDSO_GETTIMEOFDAY and p = proc0, OF loc _ _ n1 later other] val fb
    by simp
qed

text \<open>
  C1. The end-to-end scenario: the object's loadable segment maps virtual address 0 to
  file offset 0, so that the load bias is the object's base address, and its dynamic
  symbol table has an entry \<open>i\<close> named exactly like the clock-read slot, the symbol of
  that name having the value \<open>0x1000\<close>. After the discovery the \<^verbatim>\<open>VDSO_CLOCK_GETTIME\<close>
  slot holds the base address plus \<open>0x1000\<close>. The object is otherwise complete: the
  discovery reaches the scan of its \<open>n\<close> symbols.
\<close>

theorem clock_gettime_resolved_at_0x1000:
  assumes "located e = Some (n, b, s, y)"
    and "\<And>k. k < unat (e_phnum (vdso_ehdr e)) \<Longrightarrow> p_type (vdso_phdr e k) = PT_LOAD
           \<Longrightarrow> p_offset (vdso_phdr e k) = 0 \<and> p_vaddr (vdso_phdr e k) = 0"
    and "i < unat n"
    and "sym_name (mem e) s y i = VDSO_CLOCK_GETTIME_SYMBOL (target e)"
    and "\<And>k. k < unat n \<Longrightarrow> sym_name (mem e) s y k = VDSO_CLOCK_GETTIME_SYMBOL (target e)
           \<Longrightarrow> st_value (nth_sym (mem e) y k) = 0x1000"
  shows "b = AT_SYSINFO_EHDR e \<and>
         (\<exists>q. libc_init_vdso_entries e p = Some q \<and>
              fn (vdso_entries q VDSO_CLOCK_GETTIME) = AT_SYSINFO_EHDR e + 0x1000)"
proof -
  let ?P = "\<lambda>k. p_type (vdso_phdr e k) = PT_LOAD"
  let ?f = "\<lambda>k. AT_SYSINFO_EHDR e + p_offset (vdso_phdr e k) - p_vaddr (vdso_phdr e k)"
  let ?ks = "[0..<unat (e_phnum (vdso_ehdr e))]"
  have b: "b \<noteq> 0" "b = last_wins ?P ?f ?ks 0"
    using located_bias [OF assms(1)] by blast+
  from last_wins_cases [of ?P ?f ?ks 0] b
  obtain k where "k \<in> set ?ks" "?P k" "b = ?f k" by auto
  with assms(2) [of k] have bias: "b = AT_SYSINFO_EHDR e" by simp
  let ?Q = "\<lambda>k. sym_name (mem e) s y k = name (template_of e VDSO_CLOCK_GETTIME)"
  let ?g = "\<lambda>k. b + st_value (nth_sym (mem e) y k)"
  obtain q where q: "libc_init_vdso_entries e p = Some q"
    and slot: "fn (vdso_entries q VDSO_CLOCK_GETTIME) =
                 last_wins ?Q ?g [0..<unat n] (fn (template_of e VDSO_CLOCK_GETTIME))"
    using located_slot [OF assms(1), of p VDSO_CLOCK_GETTIME] by blast
  have "i \<in> set [0..<unat n]" "?Q i"
    using assms(3,4) by simp_all
  with last_wins_some [of i "[0..<unat n]" ?Q ?g "fn (template_of e VDSO_CLOCK_GETTIME)"]
  obtain l where "l < unat n" "?Q l" "fn (vdso_entries q VDSO_CLOCK_GETTIME) = ?g l"
    unfolding slot by auto
  with assms(5) [of l] have "fn (vdso_entries q VDSO_CLOCK_GETTIME) = b + 0x1000"
    by simp
  with q bias show ?thesis by simp
qed

theorem clock_gettime_resolved_at_0x1000_witness:
  "AT_SYSINFO_EHDR env_one_symbol = 0x7FFF0000 \<and>
   located env_one_symbol = Some (2, 0x7FFF0000, 0x7FFF0300, 0x7FFF0340) \<and>
   sym_name (mem env_one_symbol) 0x7FFF0300 0x7FFF0340 1 = ''__vdso_clock_gettime'' \<and>
   (\<exists>q. libc_init_vdso_entries env_one_symbol proc0 = Some q \<and>
        fn (vdso_entries q VDSO_CLOCK_GETTIME) = 0x7FFF1000)"
proof -
  have loc: "located env_one_symbol = Some (2, 0x7FFF0000, 0x7FFF0300, 0x7FFF0340)"
    by code_simp
  have base: "AT_SYSINFO_EHDR env_one_symbol = 0x7FFF0000"
    by code_simp
  have num: "unat (e_phnum (vdso_ehdr env_one_symbol)) = 2"
    by code_simp
  have load: "p_offset (vdso_phdr env_one_symbol k) = 0 \<and> p_vaddr (vdso_phdr env_one_symbol k) = 0"
    if "k < unat (e_phnum (vdso_ehdr env_one_symbol))"
      and "p_type (vdso_phdr env_one_symbol k) = PT_LOAD" for k
  proof -
    from that(1) have "k = 0 \<or> k = 1" unfolding num by auto
    then show ?thesis
    proof
      assume "k = 0"
      show ?thesis unfolding \<open>k = 0\<close> by code_simp
    next
      assume k: "k = 1"
      have "p_type (vdso_phdr env_one_symbol 1) \<noteq> PT_LOAD" by code_simp
      with that(2) show ?thesis unfolding k by simp
    qed
  qed
  have n1: "sym_name (mem env_one_symbol) 0x7FFF0300 0x7FFF0340 1
              = VDSO_CLOCK_GETTIME_SYMBOL (target env_one_symbol)"
    and n1': "sym_name (mem env_one_symbol) 0x7FFF0300 0x7FFF0340 1 = ''__vdso_clock_gettime''"
    by code_simp+
  have val: "st_value (nth_sym (mem env_one_symbol) 0x7FFF0340 k) = 0x1000"
    if "k < unat (2 :: 64 word)"
      and "sym_name (mem env_one_symbol) 0x7FFF0300 0x7FFF0340 k
             = VDSO_CLOCK_GETTIME_SYMBOL (target env_one_symbol)" for k
  proof -
    from that(1) have "k = 0 \<or> k = 1" by auto
    then show ?thesis
    proof
      assume k: "k = 0"
      have "sym_name (mem env_one_symbol) 0x7FFF0300 0x7FFF0340 0
              \<noteq> VDSO_CLOCK_GETTIME_SYMBOL (target env_one_symbol)" by code_simp
      with that(2) show ?thesis unfolding k by simp
    next
      assume "k = 1"
      show ?thesis unfolding \<open>k = 1\<close> by code_simp
    qed
  qed
  have bound: "1 < unat (2 :: 64 word)"
    by simp
  have resolved:
    "0x7FFF0000 = AT_SYSINFO_EHDR env_one_symbol \<and>
     (\<exists>q. libc_init_vdso_entries env_one_symbol proc0 = Some q \<and>
          fn (vdso_entries q VDSO_CLOCK_GETTIME) = AT_SYSINFO_EHDR env_one_symbol + 0x1000)"
    by (rule clock_gettime_resolved_at_0x1000
          [where n = 2 and s = "0x7FFF0300" and y = "0x7FFF0340" and i = 1];
        (rule loc | rule bound | rule n1 | (rule load; assumption) | (rule val; assumption)))
  have "\<exists>q. libc_init_vdso_entries env_one_symbol proc0 = Some q \<and>
            fn (vdso_entries q VDSO_CLOCK_GETTIME) = 0x7FFF1000"
    using resolved [THEN conjunct2] by (simp add: base)
  with loc base n1' show ?thesis by blast
qed

text \<open>
  C3, as the specification states it: the load bias comes from the first
  loadable-segment descriptor, also when a later one gives another bias. The code
  overwrites \<^verbatim>\<open>vdso_addr\<close> at every loadable segment: in the object with two of them, the
  first gives \<open>0x7FFF0000\<close>, the discovery translates with \<open>0x7FFF1000\<close>, the bias of the
  second, and the symbol of value \<open>0x1000\<close> resolves to \<open>0x7FFF2000\<close>.
\<close>

theorem first_load_segment_not_used:
  "spec_first_load_bias env_two_loads = 0x7FFF0000 \<and>
   spec_first_load_bias env_two_loads \<noteq> 0x7FFF1000 \<and>
   located env_two_loads = Some (2, 0x7FFF1000, 0x7FFF1300, 0x7FFF1340) \<and>
   slot_after env_two_loads proc0 VDSO_CLOCK_GETTIME = Some 0x7FFF2000"
proof -
  have "spec_first_load_bias env_two_loads = 0x7FFF0000"
    by code_simp
  moreover have "spec_first_load_bias env_two_loads \<noteq> 0x7FFF1000"
    by code_simp
  moreover have "located env_two_loads = Some (2, 0x7FFF1000, 0x7FFF1300, 0x7FFF1340)"
    by code_simp
  moreover have "slot_after env_two_loads proc0 VDSO_CLOCK_GETTIME = Some 0x7FFF2000"
    by code_simp
  ultimately show ?thesis by simp
qed

text \<open>
  C3, amended: the load bias that translates all virtual addresses is computed from the
  last loadable-segment descriptor \<open>k\<close> of the program headers, as the object's base plus
  that segment's file offset minus its declared virtual address; with two or more
  loadable segments of different biases the discovery uses the last one.
\<close>

theorem load_bias_from_last_segment:
  assumes "located e = Some (n, b, s, y)"
    and "k < unat (e_phnum (vdso_ehdr e))"
    and "p_type (vdso_phdr e k) = PT_LOAD"
    and "\<And>l. k < l \<Longrightarrow> l < unat (e_phnum (vdso_ehdr e)) \<Longrightarrow> p_type (vdso_phdr e l) \<noteq> PT_LOAD"
  shows "b = AT_SYSINFO_EHDR e + p_offset (vdso_phdr e k) - p_vaddr (vdso_phdr e k) \<and>
         libc_init_vdso_entries e p =
           Some (p\<lparr>vdso_entries :=
                    scan_symbols (mem e)
                      (AT_SYSINFO_EHDR e + p_offset (vdso_phdr e k) - p_vaddr (vdso_phdr e k))
                      s y (unat n) 0 (template_of e)\<rparr>)"
proof -
  have "b = AT_SYSINFO_EHDR e + p_offset (vdso_phdr e k) - p_vaddr (vdso_phdr e k)"
    using located_bias [OF assms(1), THEN conjunct2] assms(2-4)
    by (simp add: last_wins_upt [where k = k])
  with init_entries_located [OF assms(1), of p] show ?thesis by simp
qed

theorem load_bias_from_last_segment_witness:
  "p_type (vdso_phdr env_two_loads 0) = PT_LOAD \<and>
   p_type (vdso_phdr env_two_loads 1) = PT_LOAD \<and>
   AT_SYSINFO_EHDR env_two_loads + p_offset (vdso_phdr env_two_loads 0)
     - p_vaddr (vdso_phdr env_two_loads 0) = 0x7FFF0000 \<and>
   AT_SYSINFO_EHDR env_two_loads + p_offset (vdso_phdr env_two_loads 1)
     - p_vaddr (vdso_phdr env_two_loads 1) = 0x7FFF1000 \<and>
   located env_two_loads = Some (2, 0x7FFF1000, 0x7FFF1300, 0x7FFF1340)"
proof -
  have loc: "located env_two_loads = Some (2, 0x7FFF1000, 0x7FFF1300, 0x7FFF1340)"
    by code_simp
  have num: "unat (e_phnum (vdso_ehdr env_two_loads)) = 3"
    by code_simp
  have k: "1 < unat (e_phnum (vdso_ehdr env_two_loads))"
    by (simp add: num)
  have ty: "p_type (vdso_phdr env_two_loads 0) = PT_LOAD"
    "p_type (vdso_phdr env_two_loads 1) = PT_LOAD"
    by code_simp+
  have later: "p_type (vdso_phdr env_two_loads l) \<noteq> PT_LOAD"
    if "1 < l" and "l < unat (e_phnum (vdso_ehdr env_two_loads))" for l
  proof -
    from that have "l = 2" unfolding num by simp
    show ?thesis unfolding \<open>l = 2\<close> by code_simp
  qed
  have first: "AT_SYSINFO_EHDR env_two_loads + p_offset (vdso_phdr env_two_loads 0)
                 - p_vaddr (vdso_phdr env_two_loads 0) = 0x7FFF0000"
    by code_simp
  have used:
    "0x7FFF1000 = AT_SYSINFO_EHDR env_two_loads + p_offset (vdso_phdr env_two_loads 1)
                    - p_vaddr (vdso_phdr env_two_loads 1) \<and>
     libc_init_vdso_entries env_two_loads proc0 =
           Some (proc0\<lparr>vdso_entries :=
                    scan_symbols (mem env_two_loads)
                      (AT_SYSINFO_EHDR env_two_loads + p_offset (vdso_phdr env_two_loads 1)
                         - p_vaddr (vdso_phdr env_two_loads 1))
                      0x7FFF1300 0x7FFF1340 (unat (2 :: 64 word)) 0
                      (template_of env_two_loads)\<rparr>)"
    by (rule load_bias_from_last_segment [where k = 1];
        (rule loc | rule k | rule ty | (rule later; assumption)))
  from used [THEN conjunct1] loc ty first show ?thesis by simp
qed

text \<open>
  C10. The discovery only ever writes the address field of a slot: after the initializer
  has returned, the name of each slot is its compile-time symbol string, for every object
  and every value of the auxiliary vector. Nothing writes the table afterwards: the
  trampolines only read it.
\<close>

theorem slot_names_never_change:
  assumes "libc_init_vdso e p = Some (Returned q)"
  shows "name (vdso_entries q VDSO_CLOCK_GETTIME) = VDSO_CLOCK_GETTIME_SYMBOL (target e) \<and>
         name (vdso_entries q VDSO_GETTIMEOFDAY) = VDSO_GETTIMEOFDAY_SYMBOL (target e)"
proof -
  from init_vdso_Returned [OF assms] obtain q0
    where "libc_init_vdso_entries e
             (p\<lparr>vdso_entries_ptr := mmap_result e, prot := Some PROT_READ_WRITE\<rparr>) = Some q0"
      and "vdso_entries q = vdso_entries q0"
    by blast
  then show ?thesis
    using init_entries_names [of e _ q0] by simp
qed

theorem slot_names_never_change_witness:
  "\<exists>q. libc_init_vdso env_one_symbol proc0 = Some (Returned q) \<and>
       fn (vdso_entries q VDSO_CLOCK_GETTIME) = 0x7FFF1000 \<and>
       name (vdso_entries q VDSO_CLOCK_GETTIME) = ''__vdso_clock_gettime'' \<and>
       name (vdso_entries q VDSO_GETTIMEOFDAY) = ''__vdso_gettimeofday''"
proof -
  have "slot_after env_one_symbol proc0 VDSO_CLOCK_GETTIME = Some 0x7FFF1000"
    by code_simp
  then obtain q where q: "libc_init_vdso env_one_symbol proc0 = Some (Returned q)"
    and a: "fn (vdso_entries q VDSO_CLOCK_GETTIME) = 0x7FFF1000"
    by (auto simp add: slot_after_def split: option.splits run.splits)
  with slot_names_never_change [OF q] a show ?thesis
    by (simp add: env_one_symbol_def synthetic_env_results)
qed

text \<open>
  C8. Each trampoline loads the address of its slot from the table and calls it with the
  caller's arguments unchanged; what the call returns and what it changes (the output
  structures, \<^verbatim>\<open>errno\<close>) is what the trampoline returns and changes, and it does nothing
  else.
\<close>

theorem trampolines_forward:
  "clock_gettime M p clock_id tp w =
     call_int_ptr M (fn (vdso_entries p VDSO_CLOCK_GETTIME)) clock_id tp w \<and>
   gettimeofday M p tv tz w =
     call_ptr_ptr M (fn (vdso_entries p VDSO_GETTIMEOFDAY)) tv tz w"
  by (simp add: clock_gettime_def gettimeofday_def)

text \<open>
  C4. Whenever the discovery aborts, for any of the reasons the specification lists (see
  \<open>spec_discovery_aborts\<close>), it returns, both slots hold their fallback addresses, the
  addresses of the two system-call wrappers, exactly, and nothing has been printed: the
  diagnostics are what they were.
\<close>

theorem discovery_abort_keeps_fallbacks:
  assumes "spec_discovery_aborts e k"
  shows "\<exists>q. libc_init_vdso_entries e p = Some q \<and>
             fn (vdso_entries q VDSO_CLOCK_GETTIME) = clock_gettime_syscall e \<and>
             fn (vdso_entries q VDSO_GETTIMEOFDAY) = gettimeofday_syscall e \<and>
             diagnostics q = diagnostics p"
  using aborts_fallbacks [OF assms, of p] by simp

theorem discovery_abort_keeps_fallbacks_witness:
  "walk_start env_no_strtab = Some (2, 0x7FFF0000, 0x7FFF0200) \<and>
   sym_name (mem env_no_strtab) 0x7FFF0300 0x7FFF0340 1 = ''__vdso_clock_gettime'' \<and>
   spec_discovery_aborts env_no_strtab 1 \<and>
   (\<exists>q. libc_init_vdso_entries env_no_strtab proc0 = Some q \<and>
        fn (vdso_entries q VDSO_CLOCK_GETTIME) = 0x5000 \<and>
        fn (vdso_entries q VDSO_GETTIMEOFDAY) = 0x6000 \<and>
        diagnostics q = [])"
proof -
  have ws: "walk_start env_no_strtab = Some (2, 0x7FFF0000, 0x7FFF0200)"
    by code_simp
  have sym: "sym_name (mem env_no_strtab) 0x7FFF0300 0x7FFF0340 1 = ''__vdso_clock_gettime''"
    by code_simp
  have ab: "spec_discovery_aborts env_no_strtab 1"
    by code_simp
  have fb: "clock_gettime_syscall env_no_strtab = 0x5000"
    "gettimeofday_syscall env_no_strtab = 0x6000" "diagnostics proc0 = []"
    by code_simp+
  show ?thesis
    using discovery_abort_keeps_fallbacks [OF ab, of proc0] ws sym ab
    by (simp add: fb)
qed

text \<open>
  C6. The initializer ends in the fatal-abort primitive, with a message that carries the
  system's description of the error, exactly when \<^verbatim>\<open>mmap\<close> fails or \<^verbatim>\<open>mprotect\<close>
  fails; when both succeed it returns with the table populated and read-only and nothing
  printed, whatever the discovery has found or failed to find. A run reaches the call of
  \<^verbatim>\<open>mprotect\<close> when the walk over the dynamic section, if the discovery gets that far,
  meets its null tag (at some index \<open>k\<close>); the theorem shows that the run then ends, and
  how.
\<close>

theorem fatal_exactly_on_resource_failure:
  assumes "mmap_result e \<noteq> MAP_FAILED \<Longrightarrow> walk_ends e k"
  shows "\<exists>r. libc_init_vdso e p = Some r \<and>
           ((\<exists>q. r = Fatal q) \<longleftrightarrow> mmap_result e = MAP_FAILED \<or> mprotect_result e = - 1) \<and>
           (\<forall>q. r = Fatal q \<longrightarrow>
              diagnostics q = diagnostics p @
                [if mmap_result e = MAP_FAILED
                 then ''failed to allocate vdso function pointer table: ''
                        @ strerror e (mmap_errno e)
                 else ''failed to mprotect PROT_READ vdso function pointer table: ''
                        @ strerror e (mprotect_errno e)]) \<and>
           (\<forall>q. r = Returned q \<longrightarrow>
              prot q = Some PROT_READ \<and> diagnostics q = diagnostics p \<and>
              (\<forall>j. name (vdso_entries q j) = name (template_of e j)) \<and>
              (\<exists>q0. libc_init_vdso_entries e
                      (p\<lparr>vdso_entries_ptr := mmap_result e, prot := Some PROT_READ_WRITE\<rparr>)
                      = Some q0 \<and>
                    vdso_entries q = vdso_entries q0))"
proof (cases "mmap_result e = MAP_FAILED")
  case True
  then show ?thesis
    by (simp add: libc_init_vdso_def libc_fatal_def)
next
  case False
  from init_entries_returns [OF assms [OF False]] obtain q0
    where q0: "libc_init_vdso_entries e
                 (p\<lparr>vdso_entries_ptr := mmap_result e, prot := Some PROT_READ_WRITE\<rparr>) = Some q0"
    by blast
  from init_entries_diagnostics [OF q0] have "diagnostics q0 = diagnostics p"
    by simp
  moreover have "name (vdso_entries q0 j) = name (template_of e j)" for j
    by (rule init_entries_names [OF q0])
  ultimately show ?thesis
    using False q0 by (simp add: libc_init_vdso_def libc_fatal_def)
qed

theorem fatal_exactly_on_resource_failure_witness:
  "(\<exists>q. libc_init_vdso env_one_symbol proc0 = Some (Returned q) \<and>
        prot q = Some PROT_READ \<and> diagnostics q = []) \<and>
   (\<exists>q. libc_init_vdso env_mmap_fails proc0 = Some (Fatal q) \<and>
        diagnostics q = [''failed to allocate vdso function pointer table: errno''])"
proof -
  have ends: "walk_ends env_one_symbol 2"
    by code_simp
  have ok: "mmap_result env_one_symbol \<noteq> MAP_FAILED" "mprotect_result env_one_symbol \<noteq> - 1"
    "diagnostics proc0 = []"
    by code_simp+
  from fatal_exactly_on_resource_failure [OF ends, of proc0] obtain r
    where r: "libc_init_vdso env_one_symbol proc0 = Some r"
      and fatal: "(\<exists>q. r = Fatal q) \<longleftrightarrow>
                    mmap_result env_one_symbol = MAP_FAILED \<or>
                    mprotect_result env_one_symbol = - 1"
      and returned: "\<And>q. r = Returned q \<Longrightarrow>
                       prot q = Some PROT_READ \<and> diagnostics q = diagnostics proc0"
    by blast
  from fatal ok obtain q where "r = Returned q"
    by (cases r) auto
  with r returned [OF this] ok have one:
    "\<exists>q. libc_init_vdso env_one_symbol proc0 = Some (Returned q) \<and>
        prot q = Some PROT_READ \<and> diagnostics q = []"
    by simp
  have failed: "mmap_result env_mmap_fails = MAP_FAILED"
    "strerror env_mmap_fails (mmap_errno env_mmap_fails) = ''errno''"
    by code_simp+
  have pre: "walk_ends env_mmap_fails 0" if "mmap_result env_mmap_fails \<noteq> MAP_FAILED"
    using that failed(1) by simp
  from fatal_exactly_on_resource_failure [of env_mmap_fails 0 proc0] pre obtain r'
    where r': "libc_init_vdso env_mmap_fails proc0 = Some r'"
      and fatal': "(\<exists>q. r' = Fatal q) \<longleftrightarrow>
                     mmap_result env_mmap_fails = MAP_FAILED \<or>
                     mprotect_result env_mmap_fails = - 1"
      and msg: "\<And>q. r' = Fatal q \<Longrightarrow>
                  diagnostics q = diagnostics proc0 @
                    [if mmap_result env_mmap_fails = MAP_FAILED
                     then ''failed to allocate vdso function pointer table: ''
                            @ strerror env_mmap_fails (mmap_errno env_mmap_fails)
                     else ''failed to mprotect PROT_READ vdso function pointer table: ''
                            @ strerror env_mmap_fails (mprotect_errno env_mmap_fails)]"
    by blast
  from fatal' failed(1) obtain q' where "r' = Fatal q'"
    by auto
  with r' msg [OF this] failed ok(3) have two:
    "\<exists>q. libc_init_vdso env_mmap_fails proc0 = Some (Fatal q) \<and>
        diagnostics q = [''failed to allocate vdso function pointer table: errno'']"
    by simp
  from one two show ?thesis by blast
qed

text \<open>
  C7, as the specification states it: after the initializer every slot holds a non-null
  address, for every object. The address the discovery stores is the sum of the load bias
  and the symbol's value, and the sum wraps around: in the object whose clock-read symbol
  has the value \<open>2\<^sup>6\<^sup>4 - 0x7FFF0000\<close>, the initializer returns with the null address in
  the \<^verbatim>\<open>VDSO_CLOCK_GETTIME\<close> slot, although both fallbacks are non-null.
\<close>

theorem slot_null_after_wrap:
  "clock_gettime_syscall env_wraps_to_null \<noteq> 0 \<and>
   gettimeofday_syscall env_wraps_to_null \<noteq> 0 \<and>
   located env_wraps_to_null = Some (2, 0x7FFF0000, 0x7FFF0300, 0x7FFF0340) \<and>
   sym_name (mem env_wraps_to_null) 0x7FFF0300 0x7FFF0340 1 = ''__vdso_clock_gettime'' \<and>
   st_value (nth_sym (mem env_wraps_to_null) 0x7FFF0340 1) = 0xFFFFFFFF80010000 \<and>
   slot_after env_wraps_to_null proc0 VDSO_CLOCK_GETTIME = Some 0"
proof -
  have "clock_gettime_syscall env_wraps_to_null \<noteq> 0"
    by code_simp
  moreover have "gettimeofday_syscall env_wraps_to_null \<noteq> 0"
    by code_simp
  moreover have "located env_wraps_to_null = Some (2, 0x7FFF0000, 0x7FFF0300, 0x7FFF0340)"
    by code_simp
  moreover have "sym_name (mem env_wraps_to_null) 0x7FFF0300 0x7FFF0340 1
                   = ''__vdso_clock_gettime''"
    by code_simp
  moreover have "st_value (nth_sym (mem env_wraps_to_null) 0x7FFF0340 1) = 0xFFFFFFFF80010000"
    by code_simp
  moreover have "slot_after env_wraps_to_null proc0 VDSO_CLOCK_GETTIME = Some 0"
    by code_simp
  ultimately show ?thesis by blast
qed

text \<open>
  C7, amended: after the initializer has returned, every slot holds a non-null address,
  whether it kept its fallback or was overwritten, provided the two fallback addresses
  are non-null and no symbol named like a slot has a value that the load bias takes to
  the null address.
\<close>

theorem slots_non_null_unless_wrapped:
  assumes "libc_init_vdso e p = Some (Returned q)"
    and "clock_gettime_syscall e \<noteq> 0" and "gettimeofday_syscall e \<noteq> 0"
    and "resolves_non_null e"
  shows "fn (vdso_entries q j) \<noteq> 0"
proof -
  from init_vdso_Returned [OF assms(1)] obtain q0
    where q0: "libc_init_vdso_entries e
                 (p\<lparr>vdso_entries_ptr := mmap_result e, prot := Some PROT_READ_WRITE\<rparr>) = Some q0"
      and eq: "vdso_entries q = vdso_entries q0"
    by blast
  have fallback: "fn (template_of e j) \<noteq> 0"
    using assms(2,3) by (cases j) simp_all
  have wanted: "name (template_of e j) = VDSO_CLOCK_GETTIME_SYMBOL (target e) \<or>
                name (template_of e j) = VDSO_GETTIMEOFDAY_SYMBOL (target e)"
    by (cases j) simp_all
  show ?thesis
  proof (cases "located e")
    case None
    from init_entries_not_located [OF None q0] fallback eq show ?thesis by simp
  next
    case (Some t)
    obtain n b s y where t: "t = (n, b, s, y)" by (cases t)
    let ?P = "\<lambda>k. sym_name (mem e) s y k = name (template_of e j)"
    let ?f = "\<lambda>k. b + st_value (nth_sym (mem e) y k)"
    have loc: "located e = Some (n, b, s, y)" using Some t by simp
    from located_slot [OF loc, of "p\<lparr>vdso_entries_ptr := mmap_result e,
                                      prot := Some PROT_READ_WRITE\<rparr>" j] q0 eq
    have slot: "fn (vdso_entries q j) = last_wins ?P ?f [0..<unat n] (fn (template_of e j))"
      by auto
    from last_wins_cases [of ?P ?f "[0..<unat n]" "fn (template_of e j)"]
    show ?thesis
    proof
      assume "last_wins ?P ?f [0..<unat n] (fn (template_of e j)) = fn (template_of e j)"
      with slot fallback show ?thesis by simp
    next
      assume "\<exists>k \<in> set [0..<unat n]. ?P k \<and>
                last_wins ?P ?f [0..<unat n] (fn (template_of e j)) = ?f k"
      then obtain k where k: "k < unat n" "?P k" "fn (vdso_entries q j) = ?f k"
        using slot by auto
      with assms(4) loc wanted show ?thesis
        by (auto simp add: resolves_non_null_def)
    qed
  qed
qed

theorem slots_non_null_unless_wrapped_witness:
  "resolves_non_null env_one_symbol \<and>
   (\<exists>q. libc_init_vdso env_one_symbol proc0 = Some (Returned q) \<and>
        fn (vdso_entries q VDSO_CLOCK_GETTIME) \<noteq> 0 \<and>
        fn (vdso_entries q VDSO_GETTIMEOFDAY) \<noteq> 0)"
proof -
  have nn: "resolves_non_null env_one_symbol"
    by code_simp
  have fb: "clock_gettime_syscall env_one_symbol \<noteq> 0" "gettimeofday_syscall env_one_symbol \<noteq> 0"
    by code_simp+
  have "slot_after env_one_symbol proc0 VDSO_CLOCK_GETTIME = Some 0x7FFF1000"
    by code_simp
  then obtain q where q: "libc_init_vdso env_one_symbol proc0 = Some (Returned q)"
    by (auto simp add: slot_after_def split: option.splits run.splits)
  from slots_non_null_unless_wrapped [OF q fb nn] q nn show ?thesis
    by blast
qed

end
